theory Spec2Isabelle
  imports Complex_Main "HOL-Library.Char_ord" "HOL-Library.List_Lexorder"
begin

section \<open>Python strings\<close>

text \<open>
  A text is a \<^typ>\<open>string\<close> whose characters are the code points 0 to 255 (ASCII and
  Latin-1). The string methods the routes use are written out: \<^verbatim>\<open>lower\<close>,
  \<^verbatim>\<open>strip\<close>, \<^verbatim>\<open>split\<close> without argument, \<^verbatim>\<open>startswith\<close>,
  \<^verbatim>\<open>in\<close> on strings, \<^verbatim>\<open>join\<close> and \<^verbatim>\<open>str\<close> of an integer.
  On these code points \<^verbatim>\<open>lower\<close> adds 32 to the letters A to Z (65 to 90) and to
  the capital letters 192 to 222 other than the multiplication sign 215, and the white
  space that \<^verbatim>\<open>strip\<close> and \<^verbatim>\<open>split\<close> cut at is the codes 9 to 13, 28 to
  32, the next-line control 133 and the no-break space 160.
\<close>

definition lower_char :: "char \<Rightarrow> char" where
  "lower_char c =
     (let n = (of_char c :: nat) in
      if (65 \<le> n \<and> n \<le> 90) \<or> (192 \<le> n \<and> n \<le> 222 \<and> n \<noteq> 215)
      then char_of (n + 32) else c)"

definition str_lower :: "string \<Rightarrow> string" where
  "str_lower s = map lower_char s"

definition isspace :: "char \<Rightarrow> bool" where
  "isspace c =
     (let n = (of_char c :: nat) in
      (9 \<le> n \<and> n \<le> 13) \<or> (28 \<le> n \<and> n \<le> 32) \<or> n = 133 \<or> n = 160)"

definition str_strip :: "string \<Rightarrow> string" where
  "str_strip s = rev (dropWhile isspace (rev (dropWhile isspace s)))"

text \<open>
  \<^verbatim>\<open>s.split()\<close>: the maximal runs of characters that are not white space, in
  order; \<open>cur\<close> is the run being read.
\<close>

fun split_runs :: "string \<Rightarrow> string \<Rightarrow> string list" where
  "split_runs cur [] = (if cur = [] then [] else [cur])"
| "split_runs cur (c # cs) =
     (if isspace c then (if cur = [] then split_runs [] cs else cur # split_runs [] cs)
      else split_runs (cur @ [c]) cs)"

definition str_split :: "string \<Rightarrow> string list" where
  "str_split s = split_runs [] s"

fun str_startswith :: "string \<Rightarrow> string \<Rightarrow> bool" where
  "str_startswith s [] = True"
| "str_startswith [] (p # ps) = False"
| "str_startswith (c # cs) (p # ps) = (c = p \<and> str_startswith cs ps)"

text \<open>\<^verbatim>\<open>p in s\<close> on strings: \<open>p\<close> occurs in \<open>s\<close> as a contiguous run.\<close>

fun str_contains :: "string \<Rightarrow> string \<Rightarrow> bool" where
  "str_contains [] p = (p = [])"
| "str_contains (c # cs) p = (str_startswith (c # cs) p \<or> str_contains cs p)"

fun str_join :: "string \<Rightarrow> string list \<Rightarrow> string" where
  "str_join sep [] = []"
| "str_join sep [x] = x"
| "str_join sep (x # y # ys) = x @ sep @ str_join sep (y # ys)"

definition digit_char :: "nat \<Rightarrow> char" where
  "digit_char d = char_of (48 + d)"

function str_nat :: "nat \<Rightarrow> string" where
  "str_nat n = (if n < 10 then [digit_char n] else str_nat (n div 10) @ [digit_char (n mod 10)])"
  by pat_completeness auto
termination
  by (relation "measure id") auto

declare str_nat.simps [simp del]

definition str_int :: "int \<Rightarrow> string" where
  "str_int i = (if i < 0 then CHR ''-'' # str_nat (nat (- i)) else str_nat (nat i))"

section \<open>Greeting detection (backend/routes/chat.py)\<close>

definition greetings :: "string list" where
  "greetings =
     [''hello'', ''hi'', ''hey'', ''how are you'', ''how are u'',
      ''how'' @ [CHR 0x27] @ ''re you'', ''how'' @ [CHR 0x27] @ ''re u'',
      ''what'' @ [CHR 0x27] @ ''s up'', ''whats up'', ''greetings'', ''good morning'',
      ''good afternoon'', ''good evening'', ''good night'', ''sup'', ''yo'',
      ''hows it going'', ''how'' @ [CHR 0x27] @ ''s it going'']"

text \<open>The loop \<^verbatim>\<open>for greeting in greetings: if query_lower.startswith(greeting): return True\<close>.\<close>

fun starts_with_any :: "string \<Rightarrow> string list \<Rightarrow> bool" where
  "starts_with_any query_lower [] = False"
| "starts_with_any query_lower (greeting # rest) =
     (if str_startswith query_lower greeting then True else starts_with_any query_lower rest)"

definition is_simple_greeting :: "string \<Rightarrow> bool" where
  "is_simple_greeting query =
     (let query_lower = str_strip (str_lower query) in
      if query_lower \<in> set greetings \<or> length (str_split query_lower) \<le> 2 then True
      else starts_with_any query_lower greetings)"

section \<open>Exceptions, external services and the process state\<close>

text \<open>
  A Python exception is a value: \<open>ValueError\<close> is kept apart because the routes treat
  it differently, every other exception class is \<open>OtherError\<close>; both carry the text
  that \<^verbatim>\<open>str(e)\<close> gives. A function that may raise returns \<open>exn + 'a\<close>, and a
  function that also acts on the outside world returns the world with it.
\<close>

datatype exn = ValueError string | OtherError string

fun str_exn :: "exn \<Rightarrow> string" where
  "str_exn (ValueError m) = m"
| "str_exn (OtherError m) = m"

type_synonym vector = "real list"

text \<open>What \<^verbatim>\<open>np.array(result)\<close> holds: one vector, or a batch of rows.\<close>

datatype ndarray = Array1 vector | Array2 "vector list"

record metadata =
  m_doc_id :: "string option"
  m_file_name :: "string option"
  m_page :: "int option"
  m_chunk_id :: "int option"
  m_upload_timestamp :: "string option"

text \<open>
  A metadata dictionary has the five keys the program writes; \<open>None\<close> is an absent key.
  One row of the collection is an id, an embedding, a metadata dictionary and a document
  text.
\<close>

record row =
  r_id :: string
  r_embedding :: vector
  r_metadata :: metadata
  r_document :: string

record llm_request =
  model :: string
  messages :: "(string \<times> string) list"
  temperature :: real

record query_result =
  q_ids :: "string list list"
  q_distances :: "real list list option"
  q_metadatas :: "metadata list list"
  q_documents :: "string list list option"

text \<open>
  The collaborators outside the repository are parameters: the environment variables,
  the Hugging Face and DeepSeek endpoints, the document readers (PyPDF2, python-docx, the
  file system), the langchain splitter, \<^verbatim>\<open>uuid.uuid4\<close> (the \<open>n\<close>-th identifier
  drawn by the process), the approximate nearest-neighbour query of the collection, the
  exception with which the collection refuses a batch (its class and wording belong to
  the Chroma release), and the float64 scaling \<^verbatim>\<open>embedding / norm\<close> guarded by \<^verbatim>\<open>norm > 0\<close>, whose
  arithmetic is not modelled. Scores and distances are reals.
\<close>

record services =
  DEEPSEEK_API_KEY :: "string option"
  HF_API_KEY :: "string option"
  feature_extraction :: "string \<Rightarrow> exn + ndarray"
  unit_scale :: "vector \<Rightarrow> vector"
  completions_create :: "llm_request \<Rightarrow> exn + string"
  uuid4 :: "nat \<Rightarrow> string"
  pdf_pages :: "string \<Rightarrow> exn + string list"
  docx_paragraphs :: "string \<Rightarrow> exn + string list"
  read_txt :: "string \<Rightarrow> exn + string"
  split_text :: "string \<Rightarrow> exn + string list"
  collection_query :: "row list \<Rightarrow> vector \<Rightarrow> int option \<Rightarrow> exn + query_result"
  add_refusal :: "string list \<Rightarrow> metadata list \<Rightarrow> exn"

datatype call =
    FeatureExtraction string
  | ChatCompletion llm_request
  | CollectionAdd "string list"
  | CollectionQuery vector "int option"
  | CollectionGet "string option"
  | CollectionDelete "string list"

text \<open>
  The state a request runs in: the rows of the Chroma collection, the number of
  identifiers drawn so far, and the calls made to the embedding provider, the language
  model and the collection, oldest first.
\<close>

record world =
  collection :: "row list"
  uuids_drawn :: nat
  calls :: "call list"

definition record_call :: "call \<Rightarrow> world \<Rightarrow> world" where
  "record_call c w = w\<lparr>calls := calls w @ [c]\<rparr>"

definition draw_uuid :: "services \<Rightarrow> world \<Rightarrow> string \<times> world" where
  "draw_uuid env w = (uuid4 env (uuids_drawn w), w\<lparr>uuids_drawn := Suc (uuids_drawn w)\<rparr>)"

section \<open>Clients and embeddings (backend/config.py)\<close>

text \<open>
  The lazily initialised clients: a missing or empty key makes the initialisation fail,
  the failure text is cached and every later call raises \<open>ValueError\<close> with it. The
  environment is fixed for the life of the process, so the outcome is a function of it.
\<close>

definition get_embeddings_client :: "services \<Rightarrow> exn + unit" where
  "get_embeddings_client env =
     (if HF_API_KEY env = None \<or> HF_API_KEY env = Some []
      then Inl (ValueError (''Embeddings client not initialized: '' @
             ''HF_API_KEY not found in environment variables. '' @
             ''Get your free API key at https://huggingface.co/settings/tokens''))
      else Inr ())"

definition get_llm_client :: "services \<Rightarrow> exn + unit" where
  "get_llm_client env =
     (if DEEPSEEK_API_KEY env = None \<or> DEEPSEEK_API_KEY env = Some []
      then Inl (ValueError (''LLM client not initialized: '' @
             ''DEEPSEEK_API_KEY not found in environment variables''))
      else Inr ())"

definition query_instruction :: string where
  "query_instruction =
     ''Instruct: Given a web search query, retrieve relevant passages that answer the query'' @
     [CHR 0x0A] @ ''Query: ''"

definition formatted_text :: "bool \<Rightarrow> string \<Rightarrow> string" where
  "formatted_text is_query text = (if is_query then query_instruction @ text else text)"

text \<open>\<^verbatim>\<open>if embedding.ndim > 1: embedding = embedding[0]\<close>\<close>

fun first_row :: "ndarray \<Rightarrow> exn + vector" where
  "first_row (Array1 v) = Inr v"
| "first_row (Array2 []) = Inl (OtherError ''index 0 is out of bounds for axis 0 with size 0'')"
| "first_row (Array2 (v # vs)) = Inr v"

definition get_embedding :: "services \<Rightarrow> string \<Rightarrow> bool \<Rightarrow> world \<Rightarrow> (exn + vector) \<times> world" where
  "get_embedding env text is_query w =
     (case get_embeddings_client env of
        Inl e \<Rightarrow> (Inl e, w)
      | Inr client \<Rightarrow>
          (let w1 = record_call (FeatureExtraction (formatted_text is_query text)) w in
           case feature_extraction env (formatted_text is_query text) of
             Inl e \<Rightarrow> (Inl e, w1)
           | Inr result \<Rightarrow>
               (case first_row result of
                  Inl e \<Rightarrow> (Inl e, w1)
                | Inr embedding \<Rightarrow> (Inr (unit_scale env embedding), w1))))"

section \<open>Text extraction (backend/services/document_processor.py)\<close>

text \<open>\<^verbatim>\<open>s.split('.')\<close>: the pieces between the separators, never an empty list.\<close>

fun split_on :: "char \<Rightarrow> string \<Rightarrow> string \<Rightarrow> string list" where
  "split_on sep cur [] = [cur]"
| "split_on sep cur (c # cs) =
     (if c = sep then cur # split_on sep [] cs else split_on sep (cur @ [c]) cs)"

text \<open>The pages of a PDF numbered from \<open>page_num\<close>, those with only white space dropped.\<close>

fun numbered_pages :: "int \<Rightarrow> string list \<Rightarrow> (string \<times> int) list" where
  "numbered_pages page_num [] = []"
| "numbered_pages page_num (text # rest) =
     (if str_strip text \<noteq> [] then (text, page_num) # numbered_pages (page_num + 1) rest
      else numbered_pages (page_num + 1) rest)"

definition extract_text_from_pdf :: "services \<Rightarrow> string \<Rightarrow> exn + (string \<times> int) list" where
  "extract_text_from_pdf env file_path =
     (case pdf_pages env file_path of
        Inl e \<Rightarrow> Inl e
      | Inr pages \<Rightarrow> Inr (numbered_pages 1 pages))"

definition extract_text_from_docx :: "services \<Rightarrow> string \<Rightarrow> exn + (string \<times> int) list" where
  "extract_text_from_docx env file_path =
     (case docx_paragraphs env file_path of
        Inl e \<Rightarrow> Inl e
      | Inr paragraphs \<Rightarrow>
          (let full_text = filter (\<lambda>para. str_strip para \<noteq> []) paragraphs;
               text = str_join [CHR 0x0A] full_text
           in Inr (if str_strip text \<noteq> [] then [(text, 1)] else [])))"

definition extract_text_from_txt :: "services \<Rightarrow> string \<Rightarrow> exn + (string \<times> int) list" where
  "extract_text_from_txt env file_path =
     (case read_txt env file_path of
        Inl e \<Rightarrow> Inl e
      | Inr text \<Rightarrow> Inr (if str_strip text \<noteq> [] then [(text, 1)] else []))"

definition extract_text :: "services \<Rightarrow> string \<Rightarrow> string \<Rightarrow> exn + (string \<times> int) list" where
  "extract_text env file_path file_name =
     (let extension = last (split_on CHR ''.'' [] (str_lower file_name)) in
      if extension = ''pdf'' then extract_text_from_pdf env file_path
      else if extension \<in> set [''docx'', ''doc''] then extract_text_from_docx env file_path
      else if extension = ''txt'' then extract_text_from_txt env file_path
      else Inl (ValueError (''Unsupported file type: '' @ extension)))"

section \<open>The vector store (backend/services/vector_store.py)\<close>

subsection \<open>The Chroma collection\<close>

text \<open>
  The collection is the list of its rows in insertion order. \<^verbatim>\<open>add\<close> validates the
  batch before it writes: it refuses an empty batch, and it refuses a metadata
  dictionary with the value \<^verbatim>\<open>None\<close>, raising the exception \<open>add_refusal\<close> of the
  services; otherwise it appends one row per identifier. The
  dictionaries handed to \<^verbatim>\<open>add\<close> carry all five keys, so a field \<open>None\<close> of such a
  dictionary is the Python value \<^verbatim>\<open>None\<close>. \<^verbatim>\<open>get\<close> with a \<^verbatim>\<open>where\<close> filter
  on \<^verbatim>\<open>doc_id\<close> returns the rows whose metadata has that value; \<^verbatim>\<open>delete\<close>
  removes the rows with the given identifiers.
\<close>

definition has_none_value :: "metadata \<Rightarrow> bool" where
  "has_none_value m =
     (m_doc_id m = None \<or> m_file_name m = None \<or> m_page m = None \<or> m_chunk_id m = None \<or>
      m_upload_timestamp m = None)"

fun make_rows :: "string list \<Rightarrow> vector list \<Rightarrow> metadata list \<Rightarrow> string list \<Rightarrow> row list" where
  "make_rows (i # ids) (e # embeddings) (m # metadatas) (d # documents) =
     \<lparr>r_id = i, r_embedding = e, r_metadata = m, r_document = d\<rparr>
       # make_rows ids embeddings metadatas documents"
| "make_rows _ _ _ _ = []"

definition collection_add ::
  "services \<Rightarrow> string list \<Rightarrow> vector list \<Rightarrow> metadata list \<Rightarrow> string list \<Rightarrow> row list
     \<Rightarrow> exn + row list" where
  "collection_add env ids embeddings metadatas documents rows =
     (if ids = [] \<or> filter has_none_value metadatas \<noteq> []
      then Inl (add_refusal env ids metadatas)
      else Inr (rows @ make_rows ids embeddings metadatas documents))"

definition collection_get_where :: "string \<Rightarrow> row list \<Rightarrow> row list" where
  "collection_get_where doc_id rows = filter (\<lambda>r. m_doc_id (r_metadata r) = Some doc_id) rows"

definition collection_delete :: "string list \<Rightarrow> row list \<Rightarrow> row list" where
  "collection_delete ids rows = filter (\<lambda>r. r_id r \<notin> set ids) rows"

subsection \<open>Ingestion: \<^verbatim>\<open>process_and_store_document\<close>\<close>

text \<open>The four parallel lists and the running chunk index of the ingestion loop.\<close>

record batch =
  all_ids :: "string list"
  all_embeddings :: "vector list"
  all_metadatas :: "metadata list"
  all_documents :: "string list"
  chunk_id :: int

definition empty_batch :: batch where
  "empty_batch =
     \<lparr>all_ids = [], all_embeddings = [], all_metadatas = [], all_documents = [], chunk_id = 0\<rparr>"

record stored =
  doc_id :: string
  chunks_created :: nat

text \<open>The inner loop \<^verbatim>\<open>for chunk in chunks\<close>; an exception of \<open>get_embedding\<close> leaves it.\<close>

fun embed_chunks ::
  "services \<Rightarrow> string \<Rightarrow> string \<Rightarrow> string option \<Rightarrow> int \<Rightarrow> string list \<Rightarrow> batch \<Rightarrow> world
     \<Rightarrow> (exn + batch) \<times> world" where
  "embed_chunks env did file_name upload_timestamp page_num [] b w = (Inr b, w)"
| "embed_chunks env did file_name upload_timestamp page_num (chunk # chunks) b w =
     (case get_embedding env chunk False w of
        (Inl e, w1) \<Rightarrow> (Inl e, w1)
      | (Inr embedding, w1) \<Rightarrow>
          (case draw_uuid env w1 of
             (chunk_uuid, w2) \<Rightarrow>
               embed_chunks env did file_name upload_timestamp page_num chunks
                 \<lparr>all_ids = all_ids b @ [chunk_uuid],
                  all_embeddings = all_embeddings b @ [embedding],
                  all_metadatas = all_metadatas b @
                    [\<lparr>m_doc_id = Some did, m_file_name = Some file_name,
                      m_page = Some page_num, m_chunk_id = Some (chunk_id b),
                      m_upload_timestamp = upload_timestamp\<rparr>],
                  all_documents = all_documents b @ [chunk],
                  chunk_id = chunk_id b + 1\<rparr> w2))"

text \<open>The outer loop \<^verbatim>\<open>for text, page_num in text_pages\<close>.\<close>

fun embed_pages ::
  "services \<Rightarrow> string \<Rightarrow> string \<Rightarrow> string option \<Rightarrow> (string \<times> int) list \<Rightarrow> batch \<Rightarrow> world
     \<Rightarrow> (exn + batch) \<times> world" where
  "embed_pages env did file_name upload_timestamp [] b w = (Inr b, w)"
| "embed_pages env did file_name upload_timestamp ((text, page_num) # text_pages) b w =
     (case split_text env text of
        Inl e \<Rightarrow> (Inl e, w)
      | Inr chunks \<Rightarrow>
          (case embed_chunks env did file_name upload_timestamp page_num chunks b w of
             (Inl e, w1) \<Rightarrow> (Inl e, w1)
           | (Inr b1, w1) \<Rightarrow> embed_pages env did file_name upload_timestamp text_pages b1 w1))"

definition process_and_store_document ::
  "services \<Rightarrow> string \<Rightarrow> string \<Rightarrow> string option \<Rightarrow> world \<Rightarrow> (exn + stored) \<times> world" where
  "process_and_store_document env file_path file_name upload_timestamp w =
     (case extract_text env file_path file_name of
        Inl e \<Rightarrow> (Inl e, w)
      | Inr text_pages \<Rightarrow>
          if text_pages = []
          then (Inl (ValueError ''No text could be extracted from the document.''), w)
          else
            (case draw_uuid env w of
               (did, w0) \<Rightarrow>
                 (case embed_pages env did file_name upload_timestamp text_pages empty_batch w0 of
                    (Inl e, w1) \<Rightarrow> (Inl e, w1)
                  | (Inr b, w1) \<Rightarrow>
                      (let w2 = record_call (CollectionAdd (all_ids b)) w1 in
                       case collection_add env (all_ids b) (all_embeddings b) (all_metadatas b)
                              (all_documents b) (collection w2) of
                         Inl e \<Rightarrow> (Inl e, w2)
                       | Inr rows \<Rightarrow>
                           (Inr \<lparr>doc_id = did, chunks_created = length (all_ids b)\<rparr>,
                            w2\<lparr>collection := rows\<rparr>)))))"

subsection \<open>Similarity search: \<^verbatim>\<open>search_similar_chunks\<close>\<close>

record payload =
  p_file_name :: string
  p_page :: int
  p_chunk_id :: int
  p_text :: string
  p_doc_id :: string

record search_result =
  sr_id :: string
  sr_score :: real
  sr_payload :: payload

definition bind_exn :: "exn + 'a \<Rightarrow> ('a \<Rightarrow> exn + 'b) \<Rightarrow> exn + 'b" where
  "bind_exn r f = (case r of Inl e \<Rightarrow> Inl e | Inr x \<Rightarrow> f x)"

text \<open>Indexing a Python list with a non-negative index.\<close>

definition py_index :: "'a list \<Rightarrow> nat \<Rightarrow> exn + 'a" where
  "py_index xs i =
     (if i < length xs then Inr (xs ! i) else Inl (OtherError ''list index out of range''))"

definition dict_get :: "'a option \<Rightarrow> 'a \<Rightarrow> 'a" where
  "dict_get v dflt = (case v of None \<Rightarrow> dflt | Some x \<Rightarrow> x)"

text \<open>The dictionary built for index \<open>i\<close> in the body of the loop.\<close>

definition format_result :: "query_result \<Rightarrow> nat \<Rightarrow> exn + search_result" where
  "format_result results i =
     bind_exn (bind_exn (py_index (q_ids results) 0) (\<lambda>ids0. py_index ids0 i)) (\<lambda>rid.
     bind_exn (case q_distances results of
                 None \<Rightarrow> Inr 0
               | Some distances \<Rightarrow>
                   bind_exn (bind_exn (py_index distances 0) (\<lambda>d0. py_index d0 i))
                     (\<lambda>d. Inr (1 - d))) (\<lambda>s.
     bind_exn (bind_exn (py_index (q_metadatas results) 0) (\<lambda>m0. py_index m0 i)) (\<lambda>m.
     bind_exn (case q_documents results of
                 None \<Rightarrow> Inr []
               | Some documents \<Rightarrow> bind_exn (py_index documents 0) (\<lambda>d0. py_index d0 i)) (\<lambda>t.
     Inr \<lparr>sr_id = rid, sr_score = s,
          sr_payload = \<lparr>p_file_name = dict_get (m_file_name m) [],
                        p_page = dict_get (m_page m) 1,
                        p_chunk_id = dict_get (m_chunk_id m) 0,
                        p_text = t,
                        p_doc_id = dict_get (m_doc_id m) []\<rparr>\<rparr>))))"

fun format_results :: "query_result \<Rightarrow> nat list \<Rightarrow> exn + search_result list" where
  "format_results results [] = Inr []"
| "format_results results (i # rest) =
     bind_exn (format_result results i) (\<lambda>r.
     bind_exn (format_results results rest) (\<lambda>rs. Inr (r # rs)))"

definition search_similar_chunks ::
  "services \<Rightarrow> vector \<Rightarrow> int option \<Rightarrow> world \<Rightarrow> (exn + search_result list) \<times> world" where
  "search_similar_chunks env query_embedding top_k w =
     (let w1 = record_call (CollectionQuery query_embedding top_k) w in
      case collection_query env (collection w) query_embedding top_k of
        Inl e \<Rightarrow> (Inl e, w1)
      | Inr results \<Rightarrow>
          (if q_ids results \<noteq> [] \<and> length (hd (q_ids results)) > 0
           then format_results results [0 ..< length (hd (q_ids results))]
           else Inr [], w1))"

subsection \<open>Deletion and listing\<close>

definition delete_document_chunks :: "string \<Rightarrow> world \<Rightarrow> nat \<times> world" where
  "delete_document_chunks did w =
     (let w1 = record_call (CollectionGet (Some did)) w;
          ids = map r_id (collection_get_where did (collection w1))
      in if ids \<noteq> []
         then (length ids,
               (record_call (CollectionDelete ids) w1)
                 \<lparr>collection := collection_delete ids (collection w1)\<rparr>)
         else (0, w1))"

record document =
  d_doc_id :: string
  d_file_name :: string
  d_chunks_count :: nat
  d_upload_timestamp :: string

text \<open>
  \<open>documents_map\<close> is a Python dictionary: keys in insertion order, a key at most once.
  \<open>dict_modify\<close> changes the value stored under a key.
\<close>

fun dict_modify :: "string \<Rightarrow> ('v \<Rightarrow> 'v) \<Rightarrow> (string \<times> 'v) list \<Rightarrow> (string \<times> 'v) list" where
  "dict_modify k f [] = []"
| "dict_modify k f ((k', v) # kvs) =
     (if k' = k then (k', f v) # kvs else (k', v) # dict_modify k f kvs)"

definition count_chunk :: "string \<Rightarrow> document \<Rightarrow> document" where
  "count_chunk upload_timestamp d =
     (let d1 = d\<lparr>d_chunks_count := d_chunks_count d + 1\<rparr> in
      if upload_timestamp \<noteq> [] \<and>
         (d_upload_timestamp d1 = [] \<or> upload_timestamp < d_upload_timestamp d1)
      then d1\<lparr>d_upload_timestamp := upload_timestamp\<rparr> else d1)"

text \<open>The body of the loop over the stored metadata dictionaries.\<close>

definition group_chunk :: "(string \<times> document) list \<Rightarrow> metadata \<Rightarrow> (string \<times> document) list" where
  "group_chunk documents_map metadata =
     (let did = dict_get (m_doc_id metadata) [];
          file_name = dict_get (m_file_name metadata) [];
          upload_timestamp = dict_get (m_upload_timestamp metadata) [];
          documents_map1 =
            (if did \<noteq> [] \<and> did \<notin> fst ` set documents_map
             then documents_map @
                    [(did, \<lparr>d_doc_id = did, d_file_name = file_name, d_chunks_count = 0,
                            d_upload_timestamp = upload_timestamp\<rparr>)]
             else documents_map)
      in if did \<in> fst ` set documents_map1
         then dict_modify did (count_chunk upload_timestamp) documents_map1
         else documents_map1)"

definition get_all_documents :: "world \<Rightarrow> document list \<times> world" where
  "get_all_documents w =
     (let w1 = record_call (CollectionGet None) w;
          results = collection w1
      in if results = [] then ([], w1)
         else (sort_key d_file_name
                 (map snd (foldl group_chunk [] (map r_metadata results))), w1))"

section \<open>The routes (backend/routes/chat.py, backend/routes/documents.py)\<close>

record http_exception =
  status_code :: nat
  detail :: string

record source =
  s_file_name :: string
  s_page :: int
  s_chunk_id :: int
  s_score :: real
  s_text :: string

record chat_request =
  query :: string
  top_k :: "int option"

record chat_response =
  answer :: string
  sources :: "source list"

definition greeting_system :: string where
  "greeting_system =
     ''You are a friendly and helpful AI assistant. Respond naturally to greetings and '' @
     ''casual conversation. Be warm, conversational, and helpful. Keep responses brief '' @
     ''and friendly.''"

definition no_documents_system :: string where
  "no_documents_system =
     ''You are a friendly and helpful AI assistant. You can have normal conversations '' @
     ''with users. If they ask about documents, politely let them know they need to '' @
     ''upload documents first. Otherwise, be conversational and helpful.''"

definition low_relevance_system :: string where
  "low_relevance_system =
     ''You are a friendly AI assistant. You have access to uploaded documents, but the '' @
     ''current question doesn'' @ [CHR 0x27] @ ''t seem directly related to them. Answer '' @
     ''naturally and helpfully. If appropriate, you can mention that you have documents '' @
     ''available if they want to ask about them.''"

definition rag_system :: string where
  "rag_system =
     ''You are a helpful assistant that answers questions using information from '' @
     ''uploaded documents. Include citations for facts, but be natural and conversational.''"

definition rag_prompt :: "string \<Rightarrow> string \<Rightarrow> string" where
  "rag_prompt context q =
     str_join [CHR 0x0A]
       [''You are a helpful assistant that answers questions based on the provided '' @
        ''context from uploaded documents.'',
        [],
        ''When answering:'',
        ''1. Use information from the context below to answer the question naturally'',
        ''2. Include inline citations for specific facts or information using the '' @
        ''format [source:filename | page X | chunk Y]'',
        ''3. Be conversational and helpful - don'' @ [CHR 0x27] @
        ''t force citations for every sentence'',
        ''4. If the answer is not fully in the context, say what you can from the context'',
        ''5. Only cite actual facts, not general conversation'',
        [],
        ''Context from documents:'',
        context,
        [],
        ''User Question: '' @ q,
        [],
        ''Answer naturally with citations for facts:'']"

text \<open>\<^verbatim>\<open>llm_client.chat.completions.create(...)\<close> and the content of its first choice.\<close>

definition create_completion :: "services \<Rightarrow> llm_request \<Rightarrow> world \<Rightarrow> (exn + string) \<times> world" where
  "create_completion env req w = (completions_create env req, record_call (ChatCompletion req) w)"

text \<open>The outermost handler \<^verbatim>\<open>except Exception as e\<close> of the chat route.\<close>

definition internal_error :: "exn \<Rightarrow> http_exception" where
  "internal_error e =
     \<lparr>status_code = 500, detail = ''Error processing your request: '' @ str_exn e\<rparr>"

text \<open>
  The three conversational branches differ in the system message only: the model is
  asked at temperature 0.7 and the answer goes out with \<^verbatim>\<open>sources=[]\<close>.
\<close>

definition conversation_request :: "string \<Rightarrow> string \<Rightarrow> llm_request" where
  "conversation_request system_content q =
     \<lparr>model = ''deepseek-chat'',
      messages = [(''system'', system_content), (''user'', q)],
      temperature = 0.7\<rparr>"

definition conversational ::
  "services \<Rightarrow> string \<Rightarrow> string \<Rightarrow> world \<Rightarrow> (http_exception + chat_response) \<times> world" where
  "conversational env system_content q w =
     (case create_completion env (conversation_request system_content q) w of
        (Inl e, w1) \<Rightarrow> (Inl (internal_error e), w1)
      | (Inr a, w1) \<Rightarrow> (Inr \<lparr>answer = a, sources = []\<rparr>, w1))"

definition context_part :: "int \<Rightarrow> search_result \<Rightarrow> string" where
  "context_part idx result =
     ''[Source '' @ str_int idx @ ''] (File: '' @ p_file_name (sr_payload result) @
     '', Page: '' @ str_int (p_page (sr_payload result)) @
     '', Chunk: '' @ str_int (p_chunk_id (sr_payload result)) @ '')'' @ [CHR 0x0A] @
     p_text (sr_payload result)"

definition source_of :: "search_result \<Rightarrow> source" where
  "source_of result =
     \<lparr>s_file_name = p_file_name (sr_payload result),
      s_page = p_page (sr_payload result),
      s_chunk_id = p_chunk_id (sr_payload result),
      s_score = sr_score result,
      s_text = p_text (sr_payload result)\<rparr>"

text \<open>The loop \<^verbatim>\<open>for idx, result in enumerate(search_results, start=1)\<close>.\<close>

fun collect_sources ::
  "int \<Rightarrow> search_result list \<Rightarrow> string list \<Rightarrow> source list \<Rightarrow> string list \<times> source list" where
  "collect_sources idx [] context_parts srcs = (context_parts, srcs)"
| "collect_sources idx (result # rest) context_parts srcs =
     collect_sources (idx + 1) rest
       (context_parts @ [context_part idx result]) (srcs @ [source_of result])"

text \<open>\<^verbatim>\<open>max(r['score'] for r in search_results)\<close> on a list that is not empty.\<close>

fun max_score_of :: "search_result list \<Rightarrow> real" where
  "max_score_of [] = 0"
| "max_score_of (r # rs) = foldl max (sr_score r) (map sr_score rs)"

definition grounded_request :: "string list \<Rightarrow> string \<Rightarrow> llm_request" where
  "grounded_request context_parts q =
     \<lparr>model = ''deepseek-chat'',
      messages = [(''system'', rag_system),
                  (''user'', rag_prompt (str_join [CHR 0x0A, CHR 0x0A] context_parts) q)],
      temperature = 0.3\<rparr>"

definition grounded ::
  "services \<Rightarrow> string \<Rightarrow> search_result list \<Rightarrow> world
     \<Rightarrow> (http_exception + chat_response) \<times> world" where
  "grounded env q search_results w =
     (case collect_sources 1 search_results [] [] of
        (context_parts, srcs) \<Rightarrow>
          (case create_completion env (grounded_request context_parts q) w of
             (Inl e, w1) \<Rightarrow> (Inl (internal_error e), w1)
           | (Inr a, w1) \<Rightarrow> (Inr \<lparr>answer = a, sources = srcs\<rparr>, w1)))"

definition chat ::
  "services \<Rightarrow> chat_request \<Rightarrow> world \<Rightarrow> (http_exception + chat_response) \<times> world" where
  "chat env request w =
     (case get_llm_client env of
        Inl e \<Rightarrow>
          (Inl \<lparr>status_code = 503,
                detail = ''LLM service is not available: '' @ str_exn e @
                  ''. Please check your DEEPSEEK_API_KEY environment variable.''\<rparr>, w)
      | Inr llm_client \<Rightarrow>
          if is_simple_greeting (query request)
          then conversational env greeting_system (query request) w
          else
            (case get_embedding env (query request) True w of
               (Inl (ValueError m), w1) \<Rightarrow>
                 (Inl \<lparr>status_code = 503,
                       detail = ''Embedding service is not available: '' @ m @
                         ''. Please check your HF_API_KEY environment variable.''\<rparr>, w1)
             | (Inl (OtherError m), w1) \<Rightarrow> (Inl (internal_error (OtherError m)), w1)
             | (Inr query_embedding, w1) \<Rightarrow>
                 (case search_similar_chunks env query_embedding (top_k request) w1 of
                    (Inl e, w2) \<Rightarrow> (Inl (internal_error e), w2)
                  | (Inr search_results, w2) \<Rightarrow>
                      if search_results = []
                      then conversational env no_documents_system (query request) w2
                      else if max_score_of search_results < 0.3
                      then conversational env low_relevance_system (query request) w2
                      else grounded env (query request) search_results w2)))"

text \<open>
  The delete route answers with a JSON object, a dictionary from field names to JSON
  values, or raises the 404.
\<close>

datatype json = JString string | JNumber int

definition delete_document ::
  "string \<Rightarrow> world \<Rightarrow> (http_exception + (string \<times> json) list) \<times> world" where
  "delete_document did w =
     (case delete_document_chunks did w of
        (deleted_count, w1) \<Rightarrow>
          if deleted_count > 0
          then (Inr [(''message'', JString (''Deleted '' @ str_nat deleted_count @
                        '' chunks for document '' @ did))], w1)
          else (Inl \<lparr>status_code = 404, detail = ''Document not found''\<rparr>, w1))"

section \<open>The earlier pipeline on Qdrant (main.py)\<close>

text \<open>
  The top-level module keeps the first version of the chat endpoint. Qdrant's search
  returns scored points whose \<open>score\<close> is already a similarity; a payload is a
  dictionary read with \<^verbatim>\<open>payload['file_name']\<close>, which raises on an absent key. The
  embedding, the search and the language model are the three parameters.
\<close>

record scored_point =
  sp_score :: real
  sp_file_name :: "string option"
  sp_page :: "int option"
  sp_chunk_id :: "int option"
  sp_text :: "string option"

record qdrant_source =
  qs_file_name :: string
  qs_page :: int
  qs_chunk_id :: int
  qs_score :: real

definition dict_item :: "string \<Rightarrow> 'a option \<Rightarrow> exn + 'a" where
  "dict_item k v = (case v of None \<Rightarrow> Inl (OtherError ([CHR 0x27] @ k @ [CHR 0x27])) | Some x \<Rightarrow> Inr x)"

fun qdrant_sources :: "int \<Rightarrow> scored_point list \<Rightarrow> exn + (string list \<times> qdrant_source list)" where
  "qdrant_sources idx [] = Inr ([], [])"
| "qdrant_sources idx (result # rest) =
     bind_exn (dict_item ''file_name'' (sp_file_name result)) (\<lambda>file_name.
     bind_exn (dict_item ''page'' (sp_page result)) (\<lambda>page.
     bind_exn (dict_item ''chunk_id'' (sp_chunk_id result)) (\<lambda>cid.
     bind_exn (dict_item ''text'' (sp_text result)) (\<lambda>text.
     bind_exn (qdrant_sources (idx + 1) rest) (\<lambda>(context_parts, srcs).
       Inr ((''[Source '' @ str_int idx @ ''] (File: '' @ file_name @ '', Page: '' @
               str_int page @ '', Chunk: '' @ str_int cid @ '')'' @ [CHR 0x0A] @ text)
              # context_parts,
            \<lparr>qs_file_name = file_name, qs_page = page, qs_chunk_id = cid,
             qs_score = sp_score result\<rparr> # srcs))))))"

definition qdrant_prompt :: "string \<Rightarrow> string \<Rightarrow> string" where
  "qdrant_prompt context q =
     str_join [CHR 0x0A]
       [''You are a helpful assistant that ONLY answers questions based on the provided '' @
        ''context. '',
        [],
        ''STRICT RULES:'',
        ''1. You MUST answer ONLY using information from the context below'',
        ''2. You MUST include inline citations for every fact using the format '' @
        ''[source:filename | page X | chunk Y]'',
        ''3. If the answer is not in the context, you MUST refuse to answer and ask ONE '' @
        ''clarifying question'',
        ''4. Do NOT use any external knowledge or make assumptions'',
        [],
        ''Context:'',
        context,
        [],
        ''User Question: '' @ q,
        [],
        ''Answer (remember to include citations):'']"

definition qdrant_failure :: http_exception where
  "qdrant_failure =
     \<lparr>status_code = 500, detail = ''Error processing your request. Please try again.''\<rparr>"

definition qdrant_chat ::
  "(string \<Rightarrow> exn + vector) \<Rightarrow> (vector \<Rightarrow> int option \<Rightarrow> exn + scored_point list)
     \<Rightarrow> (string \<Rightarrow> exn + string) \<Rightarrow> chat_request
     \<Rightarrow> http_exception + (string \<times> qdrant_source list)" where
  "qdrant_chat embed_query search invoke request =
     (case embed_query (query request) of
        Inl e \<Rightarrow> Inl qdrant_failure
      | Inr query_embedding \<Rightarrow>
          (case search query_embedding (top_k request) of
             Inl e \<Rightarrow> Inl qdrant_failure
           | Inr search_results \<Rightarrow>
               if search_results = []
               then Inr (''I don'' @ [CHR 0x27] @ ''t have any documents in my knowledge base '' @
                         ''yet. Please upload some documents first so I can help answer '' @
                         ''your questions.'', [])
               else
                 (case qdrant_sources 1 search_results of
                    Inl e \<Rightarrow> Inl qdrant_failure
                  | Inr (context_parts, srcs) \<Rightarrow>
                      (case invoke (qdrant_prompt (str_join [CHR 0x0A, CHR 0x0A] context_parts)
                                      (query request)) of
                         Inl e \<Rightarrow> Inl qdrant_failure
                       | Inr a \<Rightarrow> Inr (a, srcs)))))"

section \<open>The specification's wording and sample inputs\<close>

text \<open>
  The instruction text as the specification quotes it, and the greeting test as the
  specification words it: the query equals a phrase, or starts with one, or has at most
  two tokens and matches one, where a phrase occurring anywhere in the query already
  counts as a match.
\<close>

definition spec_query_template :: string where
  "spec_query_template =
     ''Given a search query, retrieve relevant passages that answer the query''"

definition contains_any :: "string \<Rightarrow> string list \<Rightarrow> bool" where
  "contains_any q phrases = (filter (str_contains q) phrases \<noteq> [])"

definition spec_is_greeting :: "string \<Rightarrow> bool" where
  "spec_is_greeting qry =
     (let q = str_strip (str_lower qry) in
      q \<in> set greetings \<or> starts_with_any q greetings \<or>
      (length (str_split q) \<le> 2 \<and> contains_any q greetings))"

text \<open>
  Sample collaborators: both keys are set, every text embeds to the same unit vector,
  the language model answers \<open>ok\<close>, a PDF has the three pages \<open>alpha\<close>, \<open>beta\<close>,
  \<open>gamma\<close>, a text file has one page, the splitter returns a page as one chunk, the
  collection finds no neighbour and refuses a batch with a \<open>ValueError\<close>.
\<close>

definition demo_services :: services where
  "demo_services =
     \<lparr>DEEPSEEK_API_KEY = Some ''sk-demo'', HF_API_KEY = Some ''hf-demo'',
      feature_extraction = (\<lambda>t. Inr (Array1 [1, 0])),
      unit_scale = (\<lambda>v. v),
      completions_create = (\<lambda>req. Inr ''ok''),
      uuid4 = (\<lambda>n. ''uuid-'' @ str_nat n),
      pdf_pages = (\<lambda>p. Inr [''alpha'', ''beta'', ''gamma'']),
      docx_paragraphs = (\<lambda>p. Inr [''one'', ''two'']),
      read_txt = (\<lambda>p. Inr ''plain''),
      split_text = (\<lambda>t. Inr [t]),
      collection_query = (\<lambda>rows v k.
        Inr \<lparr>q_ids = [], q_distances = Some [], q_metadatas = [], q_documents = Some []\<rparr>),
      add_refusal = (\<lambda>ids metadatas. ValueError ''batch refused'')\<rparr>"

definition empty_world :: world where
  "empty_world = \<lparr>collection = [], uuids_drawn = 0, calls = []\<rparr>"

text \<open>
  A collection that answers every query with the same two neighbours, at cosine distances
  \<open>d0\<close> and \<open>d1\<close>, and what the search then returns for scores \<open>s0\<close> and \<open>s1\<close>.
\<close>

definition sample_metadata :: "int \<Rightarrow> metadata" where
  "sample_metadata i =
     \<lparr>m_doc_id = Some ''uuid-0'', m_file_name = Some ''notes.pdf'', m_page = Some (i + 1),
      m_chunk_id = Some i, m_upload_timestamp = Some ''2024-05-01T10:00:00''\<rparr>"

definition two_neighbours :: "real \<Rightarrow> real \<Rightarrow> query_result" where
  "two_neighbours d0 d1 =
     \<lparr>q_ids = [[''uuid-1'', ''uuid-2'']], q_distances = Some [[d0, d1]],
      q_metadatas = [[sample_metadata 0, sample_metadata 1]],
      q_documents = Some [[''alpha'', ''beta'']]\<rparr>"

definition searching_services :: "real \<Rightarrow> real \<Rightarrow> services" where
  "searching_services d0 d1 =
     demo_services\<lparr>collection_query := (\<lambda>rows v k. Inr (two_neighbours d0 d1))\<rparr>"

definition two_found :: "real \<Rightarrow> real \<Rightarrow> search_result list" where
  "two_found s0 s1 =
     [\<lparr>sr_id = ''uuid-1'', sr_score = s0,
       sr_payload = \<lparr>p_file_name = ''notes.pdf'', p_page = 1, p_chunk_id = 0, p_text = ''alpha'',
                     p_doc_id = ''uuid-0''\<rparr>\<rparr>,
      \<lparr>sr_id = ''uuid-2'', sr_score = s1,
       sr_payload = \<lparr>p_file_name = ''notes.pdf'', p_page = 2, p_chunk_id = 1, p_text = ''beta'',
                     p_doc_id = ''uuid-0''\<rparr>\<rparr>]"

text \<open>Two scored points as Qdrant returns them, with similarities 0.82 and 0.35.\<close>

definition sample_points :: "scored_point list" where
  "sample_points =
     [\<lparr>sp_score = 0.82, sp_file_name = Some ''notes.pdf'', sp_page = Some 1,
       sp_chunk_id = Some 0, sp_text = Some ''alpha''\<rparr>,
      \<lparr>sp_score = 0.35, sp_file_name = Some ''notes.pdf'', sp_page = Some 2,
       sp_chunk_id = Some 1, sp_text = Some ''beta''\<rparr>]"

text \<open>
  The chunks of a document in extraction order, each with its page number: the pages in
  page order and, within a page, the chunks in the order the splitter returns them. A
  page on which the splitter raises contributes no chunk here; the ingestion raises on
  such a page, so that after a successful ingestion these are the chunks of all pages.
\<close>

fun extraction_order :: "services \<Rightarrow> (string \<times> int) list \<Rightarrow> (string \<times> int) list" where
  "extraction_order env [] = []"
| "extraction_order env ((text, page_num) # text_pages) =
     (case split_text env text of
        Inl e \<Rightarrow> []
      | Inr chunks \<Rightarrow> map (\<lambda>c. (c, page_num)) chunks) @ extraction_order env text_pages"

text \<open>The rows an ingestion has added, and the calls to the embedding provider.\<close>

definition new_rows :: "world \<Rightarrow> world \<Rightarrow> row list" where
  "new_rows w w' = drop (length (collection w)) (collection w')"

definition is_feature_extraction :: "call \<Rightarrow> bool" where
  "is_feature_extraction c = (case c of FeatureExtraction t \<Rightarrow> True | _ \<Rightarrow> False)"

text \<open>
  Services whose embedding provider fails on the page \<open>gamma\<close>, and the collection
  after \<open>notes.pdf\<close> has been ingested by the sample services into the empty world.
\<close>

definition failing_services :: services where
  "failing_services =
     demo_services\<lparr>feature_extraction :=
       (\<lambda>t. if t = ''gamma'' then Inl (OtherError ''503 Service Unavailable'')
            else Inr (Array1 [1, 0]))\<rparr>"

definition notes_rows :: "row list" where
  "notes_rows =
     [\<lparr>r_id = ''uuid-1'', r_embedding = [1, 0],
       r_metadata = \<lparr>m_doc_id = Some ''uuid-0'', m_file_name = Some ''notes.pdf'',
                      m_page = Some 1, m_chunk_id = Some 0,
                      m_upload_timestamp = Some ''2024-05-01T10:00:00''\<rparr>,
       r_document = ''alpha''\<rparr>,
      \<lparr>r_id = ''uuid-2'', r_embedding = [1, 0],
       r_metadata = \<lparr>m_doc_id = Some ''uuid-0'', m_file_name = Some ''notes.pdf'',
                      m_page = Some 2, m_chunk_id = Some 1,
                      m_upload_timestamp = Some ''2024-05-01T10:00:00''\<rparr>,
       r_document = ''beta''\<rparr>,
      \<lparr>r_id = ''uuid-3'', r_embedding = [1, 0],
       r_metadata = \<lparr>m_doc_id = Some ''uuid-0'', m_file_name = Some ''notes.pdf'',
                      m_page = Some 3, m_chunk_id = Some 2,
                      m_upload_timestamp = Some ''2024-05-01T10:00:00''\<rparr>,
       r_document = ''gamma''\<rparr>]"

definition notes_world :: world where
  "notes_world =
     \<lparr>collection = notes_rows, uuids_drawn = 4,
      calls = [FeatureExtraction ''alpha'', FeatureExtraction ''beta'',
               FeatureExtraction ''gamma'', CollectionAdd [''uuid-1'', ''uuid-2'', ''uuid-3'']]\<rparr>"

text \<open>What one round of the inner loop appends to the batch.\<close>

definition chunk_metadata :: "string \<Rightarrow> string \<Rightarrow> string option \<Rightarrow> int \<Rightarrow> int \<Rightarrow> metadata" where
  "chunk_metadata did file_name upload_timestamp page_num cid =
     \<lparr>m_doc_id = Some did, m_file_name = Some file_name, m_page = Some page_num,
      m_chunk_id = Some cid, m_upload_timestamp = upload_timestamp\<rparr>"

text \<open>
  The success response of the delete route as the specification describes it: a
  \<open>message\<close> field and a \<open>deleted_count\<close> field holding the number of chunks removed.
\<close>

definition spec_delete_response :: "(string \<times> json) list \<Rightarrow> nat \<Rightarrow> bool" where
  "spec_delete_response resp n =
     (map_of resp ''message'' \<noteq> None \<and> map_of resp ''deleted_count'' = Some (JNumber (int n)))"

text \<open>The 404 of the delete route, and the sample world after \<open>notes.pdf\<close> is deleted.\<close>

definition not_found :: http_exception where
  "not_found = \<lparr>status_code = 404, detail = ''Document not found''\<rparr>"

definition emptied_world :: world where
  "emptied_world =
     \<lparr>collection = [], uuids_drawn = 4,
      calls = calls notes_world @
        [CollectionGet (Some ''uuid-0''), CollectionDelete [''uuid-1'', ''uuid-2'', ''uuid-3'']]\<rparr>"

text \<open>
  The catalogue in the specification's terms. The fields of a stored chunk, read as the
  listing reads them; the document identifiers in the order in which they first occur;
  the chunks of one document; the earliest time stamp of a group of chunks, an empty
  time stamp counting as none; and the entry of a document.
\<close>

definition chunk_doc_id :: "metadata \<Rightarrow> string" where
  "chunk_doc_id m = dict_get (m_doc_id m) []"

definition chunk_file_name :: "metadata \<Rightarrow> string" where
  "chunk_file_name m = dict_get (m_file_name m) []"

definition chunk_timestamp :: "metadata \<Rightarrow> string" where
  "chunk_timestamp m = dict_get (m_upload_timestamp m) []"

fun first_seen :: "string list \<Rightarrow> string list" where
  "first_seen [] = []"
| "first_seen (x # xs) = x # filter (\<lambda>y. y \<noteq> x) (first_seen xs)"

definition document_ids :: "metadata list \<Rightarrow> string list" where
  "document_ids mds = first_seen (filter (\<lambda>d. d \<noteq> []) (map chunk_doc_id mds))"

definition group_of :: "string \<Rightarrow> metadata list \<Rightarrow> metadata list" where
  "group_of k mds = filter (\<lambda>m. chunk_doc_id m = k) mds"

definition earliest :: "metadata list \<Rightarrow> string" where
  "earliest g =
     (let stamps = filter (\<lambda>t. t \<noteq> []) (map chunk_timestamp g)
      in if stamps = [] then [] else Min (set stamps))"

definition summary :: "string \<Rightarrow> metadata list \<Rightarrow> document" where
  "summary k mds =
     \<lparr>d_doc_id = k, d_file_name = chunk_file_name (hd (group_of k mds)),
      d_chunks_count = length (group_of k mds),
      d_upload_timestamp = earliest (group_of k mds)\<rparr>"

text \<open>The sample world after \<open>about.txt\<close> has been ingested as a second document.\<close>

definition library_world :: world where
  "library_world =
     \<lparr>collection = notes_rows @
        [\<lparr>r_id = ''uuid-5'', r_embedding = [1, 0],
          r_metadata = \<lparr>m_doc_id = Some ''uuid-4'', m_file_name = Some ''about.txt'',
                         m_page = Some 1, m_chunk_id = Some 0,
                         m_upload_timestamp = Some ''2024-05-02T09:30:00''\<rparr>,
          r_document = ''plain''\<rparr>],
      uuids_drawn = 6,
      calls = calls notes_world @ [FeatureExtraction ''plain'', CollectionAdd [''uuid-5'']]\<rparr>"

text \<open>
  Services whose splitter fails on the page \<open>beta\<close>, and services whose PDF has only
  blank pages.
\<close>

definition unsplittable_services :: services where
  "unsplittable_services =
     demo_services\<lparr>split_text :=
       (\<lambda>t. if t = ''beta'' then Inl (OtherError ''splitter failed'') else Inr [t])\<rparr>"

definition blank_services :: services where
  "blank_services = demo_services\<lparr>pdf_pages := (\<lambda>p. Inr [''  '', []])\<rparr>"

section \<open>Properties of the greeting test and of the conversational branch\<close>

lemma starts_with_any_iff:
  "starts_with_any q gs \<longleftrightarrow> (\<exists>g \<in> set gs. str_startswith q g)"
  by (induction gs) auto

lemma chat_greeting:
  "is_simple_greeting (query request) \<Longrightarrow> get_llm_client env = Inr u \<Longrightarrow>
   chat env request w = conversational env greeting_system (query request) w"
  by (simp add: chat_def)

lemma chat_no_client:
  "get_llm_client env = Inl e \<Longrightarrow>
   snd (chat env request w) = w \<and> (\<exists>h. fst (chat env request w) = Inl h)"
  by (simp add: chat_def)

lemma conversational_ok:
  "completions_create env (conversation_request s q) = Inr a \<Longrightarrow>
   conversational env s q w =
     (Inr \<lparr>answer = a, sources = []\<rparr>, record_call (ChatCompletion (conversation_request s q)) w)"
  by (simp add: conversational_def create_completion_def)

lemma conversational_calls:
  "calls (snd (conversational env s q w)) = calls w @ [ChatCompletion (conversation_request s q)]"
  by (simp add: conversational_def create_completion_def record_call_def split: sum.splits)

lemma conversational_sources:
  "fst (conversational env s q w) = Inr resp \<Longrightarrow> sources resp = []"
  by (auto simp add: conversational_def create_completion_def split: sum.splits)

lemma short_query_greeting:
  "length (str_split (str_strip (str_lower q))) \<le> 2 \<Longrightarrow> is_simple_greeting q"
  by (simp add: is_simple_greeting_def)

text \<open>
  The no-break space and the next-line control separate tokens and are stripped, as
  Python does: \<open>tell me about transformers\<close> written with two no-break spaces has four
  tokens and is no greeting, \<open>hello there my friend\<close> behind a no-break space is one, and
  a capital E with acute accent is lowered to the small one.
\<close>

lemma latin1_white_space:
  "str_split (''tell'' @ [CHR 0xA0] @ ''me'' @ [CHR 0xA0] @ ''about transformers'')
     = [''tell'', ''me'', ''about'', ''transformers'']"
  "\<not> is_simple_greeting (''tell'' @ [CHR 0xA0] @ ''me'' @ [CHR 0xA0] @ ''about transformers'')"
  "is_simple_greeting ([CHR 0xA0] @ ''hello there my friend'')"
  "str_split ([CHR 0xA0] @ ''a'' @ [CHR 0x85] @ ''b'') = [''a'', ''b'']"
  "str_lower [CHR 0xC9, CHR 0xD7, CHR 0xDF] = [CHR 0xE9, CHR 0xD7, CHR 0xDF]"
  by code_simp+

text \<open>
  C1, as the code has it. A query is a greeting exactly when its lowercased, trimmed form
  is one of the phrases, or has at most two white-space separated tokens whatever they
  are, or starts with one of the phrases. \<open>hi\<close>, \<open>Hello\<close> and \<open>how are you\<close> are
  greetings, \<open>what is machine learning\<close> is not. For a greeting, with the language
  model available and answering, the route returns the answer with no sources and its
  only outside call is the chat completion: nothing is embedded or searched.
\<close>

theorem greeting_classification:
  "(is_simple_greeting q \<longleftrightarrow>
      str_strip (str_lower q) \<in> set greetings \<or>
      length (str_split (str_strip (str_lower q))) \<le> 2 \<or>
      (\<exists>g \<in> set greetings. str_startswith (str_strip (str_lower q)) g)) \<and>
   is_simple_greeting ''hi'' \<and> is_simple_greeting ''Hello'' \<and>
   is_simple_greeting ''how are you'' \<and> \<not> is_simple_greeting ''what is machine learning'' \<and>
   (is_simple_greeting (query request) \<longrightarrow> get_llm_client env = Inr () \<longrightarrow>
    completions_create env (conversation_request greeting_system (query request)) = Inr a \<longrightarrow>
    chat env request w =
      (Inr \<lparr>answer = a, sources = []\<rparr>,
       record_call (ChatCompletion (conversation_request greeting_system (query request))) w))"
proof -
  have a: "is_simple_greeting q \<longleftrightarrow>
      str_strip (str_lower q) \<in> set greetings \<or>
      length (str_split (str_strip (str_lower q))) \<le> 2 \<or>
      (\<exists>g \<in> set greetings. str_startswith (str_strip (str_lower q)) g)"
    unfolding is_simple_greeting_def Let_def starts_with_any_iff by auto
  have b: "is_simple_greeting ''hi''" by code_simp
  have c: "is_simple_greeting ''Hello''" by code_simp
  have d: "is_simple_greeting ''how are you''" by code_simp
  have e: "\<not> is_simple_greeting ''what is machine learning''" by code_simp
  have f: "is_simple_greeting (query request) \<longrightarrow> get_llm_client env = Inr () \<longrightarrow>
    completions_create env (conversation_request greeting_system (query request)) = Inr a \<longrightarrow>
    chat env request w =
      (Inr \<lparr>answer = a, sources = []\<rparr>,
       record_call (ChatCompletion (conversation_request greeting_system (query request))) w)"
    by (simp add: chat_greeting conversational_ok)
  from a b c d e f show ?thesis by blast
qed

text \<open>
  The theorem at a query that is a greeting by its first word only, and at the request
  \<open>Hello\<close> sent to the sample services.
\<close>

theorem greeting_classification_witness:
  "is_simple_greeting ''Hey there, what is new today'' \<and>
   (\<exists>g \<in> set greetings.
      str_startswith (str_strip (str_lower ''Hey there, what is new today'')) g) \<and>
   \<not> length (str_split (str_strip (str_lower ''Hey there, what is new today''))) \<le> 2 \<and>
   chat demo_services \<lparr>query = ''Hello'', top_k = Some 5\<rparr> empty_world =
     (Inr \<lparr>answer = ''ok'', sources = []\<rparr>,
      record_call (ChatCompletion (conversation_request greeting_system ''Hello'')) empty_world)"
proof -
  have p: "str_startswith (str_strip (str_lower ''Hey there, what is new today'')) ''hey''"
    by code_simp
  have m: "''hey'' \<in> set greetings" by (simp add: greetings_def)
  have ex: "\<exists>g \<in> set greetings.
              str_startswith (str_strip (str_lower ''Hey there, what is new today'')) g"
    using p m by blast
  have n: "\<not> length (str_split (str_strip (str_lower ''Hey there, what is new today''))) \<le> 2"
    by code_simp
  have g: "is_simple_greeting ''Hello''" by code_simp
  have c: "get_llm_client demo_services = Inr ()"
    by (simp add: get_llm_client_def demo_services_def)
  have l: "completions_create demo_services (conversation_request greeting_system ''Hello'')
             = Inr ''ok''"
    by (simp add: demo_services_def)
  from greeting_classification [of "''Hey there, what is new today''"
         "\<lparr>query = ''Hello'', top_k = Some 5\<rparr>" demo_services "''ok''" empty_world] ex n g c l
  show ?thesis by simp
qed

text \<open>
  C1 as the specification words it fails: \<open>deep learning\<close> is classified as a greeting
  although it neither equals, nor starts with, nor even contains a greeting phrase.
\<close>

theorem greeting_classification_counterexample:
  "is_simple_greeting ''deep learning'' \<and> \<not> spec_is_greeting ''deep learning''"
  by code_simp

text \<open>
  C10. A query whose lowercased, trimmed form has at most two tokens is classified as a
  greeting. The route then makes no call to the embedding provider or to the
  collection: its calls are those made before, followed at most by the one chat
  completion of the greeting branch. Every response it returns has no sources, and when
  the language model is available and answers, that answer is returned.
\<close>

theorem short_query_skips_retrieval:
  assumes "length (str_split (str_strip (str_lower (query request)))) \<le> 2"
  shows "is_simple_greeting (query request) \<and>
         (calls (snd (chat env request w)) = calls w \<or>
          calls (snd (chat env request w)) =
            calls w @ [ChatCompletion (conversation_request greeting_system (query request))]) \<and>
         (\<forall>resp. fst (chat env request w) = Inr resp \<longrightarrow> sources resp = []) \<and>
         (\<forall>a. get_llm_client env = Inr () \<longrightarrow>
              completions_create env (conversation_request greeting_system (query request))
                = Inr a \<longrightarrow>
              fst (chat env request w) = Inr \<lparr>answer = a, sources = []\<rparr>)"
proof -
  have g: "is_simple_greeting (query request)"
    using assms by (rule short_query_greeting)
  have calls: "calls (snd (chat env request w)) = calls w \<or>
          calls (snd (chat env request w)) =
            calls w @ [ChatCompletion (conversation_request greeting_system (query request))]"
  proof (cases "get_llm_client env")
    case (Inl e)
    then show ?thesis using chat_no_client by simp
  next
    case (Inr u)
    then show ?thesis using g by (simp add: chat_greeting conversational_calls)
  qed
  have src: "\<forall>resp. fst (chat env request w) = Inr resp \<longrightarrow> sources resp = []"
  proof (cases "get_llm_client env")
    case (Inl e)
    then show ?thesis using chat_no_client [OF Inl, of request w] by auto
  next
    case (Inr u)
    then show ?thesis using g by (simp add: chat_greeting conversational_sources)
  qed
  have ans: "\<forall>a. get_llm_client env = Inr () \<longrightarrow>
              completions_create env (conversation_request greeting_system (query request))
                = Inr a \<longrightarrow>
              fst (chat env request w) = Inr \<lparr>answer = a, sources = []\<rparr>"
    using g by (simp add: chat_greeting conversational_ok)
  from g calls src ans show ?thesis by blast
qed

text \<open>
  The theorem at \<open>machine learning\<close>, which is no greeting phrase and starts with none,
  sent to the sample services; the empty query and a query of blanks have no token at
  all.
\<close>

theorem short_query_skips_retrieval_witness:
  "length (str_split (str_strip (str_lower ''machine learning''))) \<le> 2 \<and>
   ''machine learning'' \<notin> set greetings \<and>
   \<not> starts_with_any ''machine learning'' greetings \<and>
   is_simple_greeting ''machine learning'' \<and>
   fst (chat demo_services \<lparr>query = ''machine learning'', top_k = Some 5\<rparr> empty_world) =
     Inr \<lparr>answer = ''ok'', sources = []\<rparr> \<and>
   calls (snd (chat demo_services \<lparr>query = ''machine learning'', top_k = Some 5\<rparr> empty_world)) =
     [ChatCompletion (conversation_request greeting_system ''machine learning'')] \<and>
   length (str_split (str_strip (str_lower []))) \<le> 2 \<and>
   length (str_split (str_strip (str_lower ''   ''))) \<le> 2"
proof -
  have h: "length (str_split (str_strip (str_lower
             (query \<lparr>query = ''machine learning'', top_k = Some 5\<rparr>)))) \<le> 2"
    by code_simp
  have n1: "''machine learning'' \<notin> set greetings" by code_simp
  have n2: "\<not> starts_with_any ''machine learning'' greetings" by code_simp
  have e1: "length (str_split (str_strip (str_lower []))) \<le> 2" by code_simp
  have e2: "length (str_split (str_strip (str_lower ''   ''))) \<le> 2" by code_simp
  have c: "get_llm_client demo_services = Inr ()"
    by (simp add: get_llm_client_def demo_services_def)
  have l: "completions_create demo_services
             (conversation_request greeting_system ''machine learning'') = Inr ''ok''"
    by (simp add: demo_services_def)
  have k: "calls (snd (chat demo_services \<lparr>query = ''machine learning'', top_k = Some 5\<rparr>
             empty_world)) \<noteq> calls empty_world"
    using c short_query_greeting [OF h]
    by (simp add: chat_greeting conversational_calls)
  from short_query_skips_retrieval [OF h, of demo_services empty_world] h n1 n2 e1 e2 c l k
  show ?thesis by (simp add: empty_world_def)
qed

section \<open>Properties of the embedding request\<close>

text \<open>
  C7, as the code has it. When the embeddings client is available, a text embedded as a
  query is sent to the provider as the instruction
  \<open>Instruct: Given a web search query, retrieve relevant passages that answer the query\<close>,
  a line break and \<open>Query: \<close>, followed by the text; a text embedded as a document is
  sent as it is.
\<close>

theorem embedding_text_framing:
  assumes "get_embeddings_client env = Inr ()"
  shows "calls (snd (get_embedding env text True w)) =
           calls w @ [FeatureExtraction
             (''Instruct: Given a web search query, retrieve relevant passages that answer the query''
              @ [CHR 0x0A] @ ''Query: '' @ text)] \<and>
         calls (snd (get_embedding env text False w)) = calls w @ [FeatureExtraction text]"
  using assms
  by (simp add: get_embedding_def formatted_text_def query_instruction_def record_call_def
      Let_def split: sum.splits)

theorem embedding_text_framing_witness:
  "get_embeddings_client demo_services = Inr () \<and>
   calls (snd (get_embedding demo_services ''cats'' True empty_world)) =
     [FeatureExtraction
       (''Instruct: Given a web search query, retrieve relevant passages that answer the query''
        @ [CHR 0x0A] @ ''Query: cats'')] \<and>
   calls (snd (get_embedding demo_services ''cats'' False empty_world)) =
     [FeatureExtraction ''cats'']"
proof -
  have c: "get_embeddings_client demo_services = Inr ()"
    by (simp add: get_embeddings_client_def demo_services_def)
  from embedding_text_framing [OF c, of "''cats''" empty_world] c
  show ?thesis by (simp add: empty_world_def)
qed

text \<open>
  C7 as the specification words it fails: the text sent for the query \<open>cats\<close> is not
  the quoted template followed by the query, and the quoted template does not occur
  anywhere in it.
\<close>

theorem embedding_text_framing_counterexample:
  "calls (snd (get_embedding demo_services ''cats'' True empty_world)) \<noteq>
     [FeatureExtraction (spec_query_template @ ''cats'')] \<and>
   \<not> str_contains (formatted_text True ''cats'') spec_query_template"
  by (simp add: get_embedding_def get_embeddings_client_def demo_services_def
      formatted_text_def query_instruction_def record_call_def empty_world_def
      spec_query_template_def Let_def)

section \<open>Properties of the relevance gate\<close>

lemma collect_sources_snd:
  "snd (collect_sources idx rs cps ss) = ss @ map source_of rs"
  by (induction rs arbitrary: idx cps ss) simp_all

lemma foldl_max_Max: "foldl max (x::real) xs = Max (insert x (set xs))"
proof (induction xs arbitrary: x)
  case Nil
  then show ?case by simp
next
  case (Cons a xs)
  have "Max (insert (max x a) (set xs)) = Max (insert x (insert a (set xs)))"
    by (cases "set xs = {}") (simp_all add: max.assoc)
  with Cons show ?case by simp
qed

lemma max_score_of_Max:
  "rs \<noteq> [] \<Longrightarrow> max_score_of rs = Max (set (map sr_score rs))"
  by (cases rs) (simp_all add: foldl_max_Max)

lemma grounded_sources:
  "fst (grounded env q rs w) = Inr resp \<Longrightarrow> sources resp = map source_of rs"
  using collect_sources_snd [of 1 rs "[]" "[]"]
  by (auto simp add: grounded_def create_completion_def split: prod.splits sum.splits)

lemma grounded_ok:
  "completions_create env (grounded_request (fst (collect_sources 1 rs [] [])) q) = Inr a \<Longrightarrow>
   grounded env q rs w =
     (Inr \<lparr>answer = a, sources = map source_of rs\<rparr>,
      record_call (ChatCompletion (grounded_request (fst (collect_sources 1 rs [] [])) q)) w)"
  using collect_sources_snd [of 1 rs "[]" "[]"]
  by (auto simp add: grounded_def create_completion_def split: prod.splits sum.splits)

lemma grounded_calls:
  "calls (snd (grounded env q rs w)) =
     calls w @ [ChatCompletion (grounded_request (fst (collect_sources 1 rs [] [])) q)]"
  by (auto simp add: grounded_def create_completion_def record_call_def split: prod.splits sum.splits)

lemma chat_gate:
  assumes "get_llm_client env = Inr u"
      and "\<not> is_simple_greeting (query request)"
      and "get_embedding env (query request) True w = (Inr v, w1)"
      and "search_similar_chunks env v (top_k request) w1 = (Inr rs, w2)"
      and "rs \<noteq> []"
  shows "chat env request w =
           (if Max (set (map sr_score rs)) < 0.3
            then conversational env low_relevance_system (query request) w2
            else grounded env (query request) rs w2)"
  using assms by (simp add: chat_def max_score_of_Max)

lemma map_source_scores: "map s_score (map source_of rs) = map sr_score rs"
  by (simp add: source_of_def)





lemma gate_low:
  assumes gate: "chat env request w = conversational env low_relevance_system (query request) w2"
  shows "calls (snd (chat env request w)) =
         calls w2 @ [ChatCompletion (conversation_request low_relevance_system (query request))] \<and>
       (\<forall>resp. fst (chat env request w) = Inr resp \<longrightarrow> sources resp = []) \<and>
       (\<forall>a. completions_create env (conversation_request low_relevance_system (query request))
               = Inr a \<longrightarrow>
            fst (chat env request w) = Inr \<lparr>answer = a, sources = []\<rparr>)"
  unfolding gate
  by (simp add: conversational_calls conversational_sources conversational_ok)

lemma gate_high:
  assumes gate: "chat env request w = grounded env (query request) rs w2"
  shows "calls (snd (chat env request w)) =
         calls w2 @ [ChatCompletion
                      (grounded_request (fst (collect_sources 1 rs [] [])) (query request))] \<and>
       (\<forall>resp. fst (chat env request w) = Inr resp \<longrightarrow>
          sources resp = map source_of rs \<and> length (sources resp) = length rs \<and>
          map s_score (sources resp) = map sr_score rs) \<and>
       (\<forall>a. completions_create env
               (grounded_request (fst (collect_sources 1 rs [] [])) (query request)) = Inr a \<longrightarrow>
            fst (chat env request w) = Inr \<lparr>answer = a, sources = map source_of rs\<rparr>)"
proof (intro conjI allI impI)
  show "calls (snd (chat env request w)) =
         calls w2 @ [ChatCompletion
                      (grounded_request (fst (collect_sources 1 rs [] [])) (query request))]"
    unfolding gate by (rule grounded_calls)
next
  fix resp assume r: "fst (chat env request w) = Inr resp"
  then show s: "sources resp = map source_of rs"
    unfolding gate by (rule grounded_sources)
  from s show "length (sources resp) = length rs" by simp
  from s show "map s_score (sources resp) = map sr_score rs"
    by (simp only: map_source_scores)
next
  fix a
  assume "completions_create env
            (grounded_request (fst (collect_sources 1 rs [] [])) (query request)) = Inr a"
  then show "fst (chat env request w) = Inr \<lparr>answer = a, sources = map source_of rs\<rparr>"
    unfolding gate by (simp only: grounded_ok fst_conv)
qed


text \<open>
  C2. The language model client is available, the query is no greeting, it is embedded,
  and the search returns the results \<open>rs\<close>, at least one. If the largest score is
  below 0.3, the route asks the model with the low-relevance system message and every
  response has no sources. Otherwise it asks with the prompt built from the results and
  every response has one source per result, in the order of the results, with the
  scores of the results. With the scores 0.1 and 0.05 a response has no sources; with 0.9
  and 0.4 it has two sources with these scores in this order.
\<close>

theorem relevance_gate:
  assumes llm: "get_llm_client env = Inr ()"
      and ng: "\<not> is_simple_greeting (query request)"
      and emb: "get_embedding env (query request) True w = (Inr v, w1)"
      and srch: "search_similar_chunks env v (top_k request) w1 = (Inr rs, w2)"
      and ne: "rs \<noteq> []"
  shows
   "(Max (set (map sr_score rs)) < 0.3 \<longrightarrow>
       calls (snd (chat env request w)) =
         calls w2 @ [ChatCompletion (conversation_request low_relevance_system (query request))] \<and>
       (\<forall>resp. fst (chat env request w) = Inr resp \<longrightarrow> sources resp = []) \<and>
       (\<forall>a. completions_create env (conversation_request low_relevance_system (query request))
               = Inr a \<longrightarrow>
            fst (chat env request w) = Inr \<lparr>answer = a, sources = []\<rparr>)) \<and>
    (\<not> Max (set (map sr_score rs)) < 0.3 \<longrightarrow>
       calls (snd (chat env request w)) =
         calls w2 @ [ChatCompletion
                      (grounded_request (fst (collect_sources 1 rs [] [])) (query request))] \<and>
       (\<forall>resp. fst (chat env request w) = Inr resp \<longrightarrow>
          sources resp = map source_of rs \<and> length (sources resp) = length rs \<and>
          map s_score (sources resp) = map sr_score rs) \<and>
       (\<forall>a. completions_create env
               (grounded_request (fst (collect_sources 1 rs [] [])) (query request)) = Inr a \<longrightarrow>
            fst (chat env request w) = Inr \<lparr>answer = a, sources = map source_of rs\<rparr>)) \<and>
    (map sr_score rs = [0.1, 0.05] \<longrightarrow>
       (\<forall>resp. fst (chat env request w) = Inr resp \<longrightarrow> sources resp = [])) \<and>
    (map sr_score rs = [0.9, 0.4] \<longrightarrow>
       (\<forall>resp. fst (chat env request w) = Inr resp \<longrightarrow>
          length (sources resp) = 2 \<and> map s_score (sources resp) = [0.9, 0.4]))"
proof -
  note gate = chat_gate [OF llm ng emb srch ne]
  have low: "Max (set (map sr_score rs)) < 0.3 \<Longrightarrow>
       calls (snd (chat env request w)) =
         calls w2 @ [ChatCompletion (conversation_request low_relevance_system (query request))] \<and>
       (\<forall>resp. fst (chat env request w) = Inr resp \<longrightarrow> sources resp = []) \<and>
       (\<forall>a. completions_create env (conversation_request low_relevance_system (query request))
               = Inr a \<longrightarrow>
            fst (chat env request w) = Inr \<lparr>answer = a, sources = []\<rparr>)"
    by (rule gate_low) (simp only: gate if_True)
  have high: "\<not> Max (set (map sr_score rs)) < 0.3 \<Longrightarrow>
       calls (snd (chat env request w)) =
         calls w2 @ [ChatCompletion
                      (grounded_request (fst (collect_sources 1 rs [] [])) (query request))] \<and>
       (\<forall>resp. fst (chat env request w) = Inr resp \<longrightarrow>
          sources resp = map source_of rs \<and> length (sources resp) = length rs \<and>
          map s_score (sources resp) = map sr_score rs) \<and>
       (\<forall>a. completions_create env
               (grounded_request (fst (collect_sources 1 rs [] [])) (query request)) = Inr a \<longrightarrow>
            fst (chat env request w) = Inr \<lparr>answer = a, sources = map source_of rs\<rparr>)"
    by (rule gate_high) (simp only: gate if_False)
  have ex1: "\<forall>resp. fst (chat env request w) = Inr resp \<longrightarrow> sources resp = []"
    if s: "map sr_score rs = [0.1, 0.05]"
  proof -
    from s have "Max (set (map sr_score rs)) < 0.3" by simp
    from low [OF this] show ?thesis by (rule conjunct2 [THEN conjunct1])
  qed
  have ex2: "\<forall>resp. fst (chat env request w) = Inr resp \<longrightarrow>
          length (sources resp) = 2 \<and> map s_score (sources resp) = [0.9, 0.4]"
    if s: "map sr_score rs = [0.9, 0.4]"
  proof -
    from s have m: "\<not> Max (set (map sr_score rs)) < 0.3" by simp
    have "length (map sr_score rs) = 2" by (simp only: s) simp
    then have l: "length rs = 2" by simp
    from high [OF m] have "\<forall>resp. fst (chat env request w) = Inr resp \<longrightarrow>
          sources resp = map source_of rs \<and> length (sources resp) = length rs \<and>
          map s_score (sources resp) = map sr_score rs"
      by (rule conjunct2 [THEN conjunct1])
    then show ?thesis unfolding l s by blast
  qed
  note c1 = impI [OF low] and c2 = impI [OF high] and c3 = impI [OF ex1] and c4 = impI [OF ex2]
  show ?thesis by (rule conjI [OF c1 conjI [OF c2 conjI [OF c3 c4]]])
qed

lemma search_two:
  "search_similar_chunks (searching_services d0 d1) v k w =
     (Inr (two_found (1 - d0) (1 - d1)), record_call (CollectionQuery v k) w)"
  by (simp add: search_similar_chunks_def searching_services_def two_neighbours_def
      two_found_def format_result_def bind_exn_def py_index_def dict_get_def
      sample_metadata_def Let_def upt_rec)

lemma embed_demo:
  "get_embedding (searching_services d0 d1) t True w =
     (Inr [1, 0], record_call (FeatureExtraction (formatted_text True t)) w)"
  by (simp add: get_embedding_def get_embeddings_client_def searching_services_def
      demo_services_def Let_def)


text \<open>
  The theorem at the question \<open>what is machine learning\<close>, once with neighbours at
  distances 0.9 and 0.95 (scores 0.1 and 0.05), once at distances 0.1 and 0.6 (scores 0.9
  and 0.4).
\<close>

theorem relevance_gate_witness:
  "get_llm_client (searching_services 0.9 0.95) = Inr () \<and>
   \<not> is_simple_greeting ''what is machine learning'' \<and>
   map sr_score (two_found 0.1 0.05) = [0.1, 0.05] \<and>
   fst (chat (searching_services 0.9 0.95)
          \<lparr>query = ''what is machine learning'', top_k = Some 5\<rparr> empty_world) =
     Inr \<lparr>answer = ''ok'', sources = []\<rparr> \<and>
   map sr_score (two_found 0.9 0.4) = [0.9, 0.4] \<and>
   fst (chat (searching_services 0.1 0.6)
          \<lparr>query = ''what is machine learning'', top_k = Some 5\<rparr> empty_world) =
     Inr \<lparr>answer = ''ok'',
          sources = [\<lparr>s_file_name = ''notes.pdf'', s_page = 1, s_chunk_id = 0, s_score = 0.9,
                      s_text = ''alpha''\<rparr>,
                     \<lparr>s_file_name = ''notes.pdf'', s_page = 2, s_chunk_id = 1, s_score = 0.4,
                      s_text = ''beta''\<rparr>]\<rparr>"
proof -
  let ?req = "\<lparr>query = ''what is machine learning'', top_k = Some 5\<rparr>"
  let ?w1 = "record_call (FeatureExtraction (formatted_text True ''what is machine learning''))
               empty_world"
  let ?w2 = "record_call (CollectionQuery [1, 0] (Some 5)) ?w1"
  have llm: "get_llm_client (searching_services d0 d1) = Inr ()" for d0 d1
    by (simp add: get_llm_client_def searching_services_def demo_services_def)
  have ng: "\<not> is_simple_greeting (query ?req)" by code_simp
  have emb: "get_embedding (searching_services d0 d1) (query ?req) True empty_world
               = (Inr [1, 0], ?w1)" for d0 d1
    by (simp add: embed_demo)
  have srch: "search_similar_chunks (searching_services d0 d1) [1, 0] (top_k ?req) ?w1
               = (Inr (two_found (1 - d0) (1 - d1)), ?w2)" for d0 d1
    by (simp add: search_two)
  have ne: "two_found s0 s1 \<noteq> []" for s0 s1 by (simp add: two_found_def)
  have ok: "completions_create (searching_services d0 d1) r = Inr ''ok''" for d0 d1 r
    by (simp add: searching_services_def demo_services_def)
  have lo: "Max (set (map sr_score (two_found (1 - 0.9) (1 - 0.95)))) < 0.3"
    by (simp add: two_found_def)
  have hi: "\<not> Max (set (map sr_score (two_found (1 - 0.1) (1 - 0.6)))) < 0.3"
    by (simp add: two_found_def)
  from relevance_gate [OF llm [of "0.9" "0.95"] ng emb [of "0.9" "0.95"] srch [of "0.9" "0.95"] ne]
    lo ok
  have a: "fst (chat (searching_services 0.9 0.95) ?req empty_world)
             = Inr \<lparr>answer = ''ok'', sources = []\<rparr>"
    by blast
  from relevance_gate [OF llm [of "0.1" "0.6"] ng emb [of "0.1" "0.6"] srch [of "0.1" "0.6"] ne]
    hi ok
  have b: "fst (chat (searching_services 0.1 0.6) ?req empty_world)
             = Inr \<lparr>answer = ''ok'', sources = map source_of (two_found (1 - 0.1) (1 - 0.6))\<rparr>"
    by blast
  from a b llm ng show ?thesis by (simp add: two_found_def source_of_def)
qed

section \<open>Properties of the scores\<close>

lemma format_result_score:
  assumes "format_result results i = Inr r" and "q_distances results = Some ds"
  shows "ds \<noteq> [] \<and> i < length (hd ds) \<and> sr_score r = 1 - hd ds ! i"
  using assms
  by (auto simp add: format_result_def bind_exn_def py_index_def hd_conv_nth
      split: sum.splits if_splits option.splits)

lemma format_results_scores:
  assumes "format_results results ix = Inr rs" and "q_distances results = Some ds"
  shows "length rs = length ix \<and>
         (\<forall>j < length ix. ds \<noteq> [] \<and> ix ! j < length (hd ds) \<and>
                          sr_score (rs ! j) = 1 - hd ds ! (ix ! j))"
  using assms
proof (induction ix arbitrary: rs)
  case Nil
  then show ?case by simp
next
  case (Cons i ix)
  from Cons.prems(1) obtain r rest where
    r: "format_result results i = Inr r" and rest: "format_results results ix = Inr rest"
    and rs: "rs = r # rest"
    by (auto simp add: bind_exn_def split: sum.splits)
  note h = format_result_score [OF r Cons.prems(2)]
  note ih = Cons.IH [OF rest Cons.prems(2)]
  show ?case
  proof (intro conjI allI impI)
    show "length rs = length (i # ix)" using ih rs by simp
  next
    fix j assume "j < length (i # ix)"
    then show "ds \<noteq> []" using h by simp
  next
    fix j assume j: "j < length (i # ix)"
    show "(i # ix) ! j < length (hd ds)"
      using h ih j by (cases j) simp_all
  next
    fix j assume j: "j < length (i # ix)"
    show "sr_score (rs ! j) = 1 - hd ds ! ((i # ix) ! j)"
      using h ih j rs by (cases j) simp_all
  qed
qed

lemma search_scores:
  assumes q: "collection_query env (collection w) v k = Inr results"
      and d: "q_distances results = Some ds"
      and s: "fst (search_similar_chunks env v k w) = Inr rs"
  shows "(q_ids results \<noteq> [] \<longrightarrow> length rs = length (hd (q_ids results))) \<and>
         (\<forall>i < length rs. ds \<noteq> [] \<and> i < length (hd ds) \<and> sr_score (rs ! i) = 1 - hd ds ! i)"
proof (cases "q_ids results \<noteq> [] \<and> length (hd (q_ids results)) > 0")
  case True
  with q s have f: "format_results results [0 ..< length (hd (q_ids results))] = Inr rs"
    by (simp add: search_similar_chunks_def Let_def)
  from format_results_scores [OF f d] show ?thesis by simp
next
  case False
  with q s have "rs = []" by (auto simp add: search_similar_chunks_def Let_def)
  with False show ?thesis by auto
qed

lemma qdrant_sources_scores:
  "qdrant_sources idx pts = Inr (cps, srcs) \<Longrightarrow> map qs_score srcs = map sp_score pts"
proof (induction pts arbitrary: idx cps srcs)
  case Nil
  then show ?case by simp
next
  case (Cons p pts)
  from Cons.prems obtain cps' srcs' where
    rest: "qdrant_sources (idx + 1) pts = Inr (cps', srcs')"
    and srcs: "qs_score (hd srcs) = sp_score p \<and> tl srcs = srcs' \<and> srcs \<noteq> []"
    by (auto simp add: bind_exn_def split: sum.splits)
  from Cons.IH [OF rest] srcs show ?case by (cases srcs) simp_all
qed

lemma qdrant_chat_scores:
  assumes "embed_query (query request) = Inr qv"
      and "search qv (top_k request) = Inr points"
      and "qdrant_chat embed_query search invoke request = Inr (a, srcs)"
  shows "map qs_score srcs = map sp_score points"
  using assms
  by (auto simp add: qdrant_chat_def split: if_splits sum.splits prod.splits
      dest: qdrant_sources_scores)


lemma chat_no_results:
  assumes "get_llm_client env = Inr u"
      and "\<not> is_simple_greeting (query request)"
      and "get_embedding env (query request) True w = (Inr v, w1)"
      and "search_similar_chunks env v (top_k request) w1 = (Inr [], w2)"
  shows "chat env request w = conversational env no_documents_system (query request) w2"
  using assms by (simp add: chat_def)

lemma chat_sources_scores:
  assumes llm: "get_llm_client env = Inr u"
      and ng: "\<not> is_simple_greeting (query request)"
      and emb: "get_embedding env (query request) True w = (Inr v, w1)"
      and srch: "search_similar_chunks env v (top_k request) w1 = (Inr rs, w2)"
      and r: "fst (chat env request w) = Inr resp"
      and ne: "sources resp \<noteq> []"
  shows "map s_score (sources resp) = map sr_score rs \<and>
         max_score_of rs = Max (set (map s_score (sources resp))) \<and>
         \<not> max_score_of rs < 0.3"
proof (cases "rs = []")
  case True
  with chat_no_results [OF llm ng emb] srch r ne show ?thesis
    by (auto dest: conversational_sources)
next
  case False
  note gate = chat_gate [OF llm ng emb srch False]
  show ?thesis
  proof (cases "Max (set (map sr_score rs)) < 0.3")
    case True
    with gate r ne show ?thesis by (auto dest: conversational_sources)
  next
    case high: False
    with gate r have "sources resp = map source_of rs"
      by (auto dest: grounded_sources)
    then have m: "map s_score (sources resp) = map sr_score rs"
      by (simp only: map_source_scores)
    from False have "max_score_of rs = Max (set (map sr_score rs))"
      by (rule max_score_of_Max)
    with m high show ?thesis by simp
  qed
qed

text \<open>
  C5. Three facts about one request. When the collection answers the query with
  distances, the \<open>i\<close>-th result of the search has the score one minus the \<open>i\<close>-th
  distance, and there is one result per identifier returned. In the earlier pipeline,
  where Qdrant reports similarities, the score of every source is the score of its
  point, unchanged. In the chat route, whenever a response carries sources, their scores
  are the scores of the search results in the same order, and the value the gate
  compared with 0.3 is the largest of exactly these scores.
\<close>

theorem score_conversion_uniform:
  "(collection_query env (collection w1) v (top_k request) = Inr results \<longrightarrow>
    q_distances results = Some ds \<longrightarrow>
    fst (search_similar_chunks env v (top_k request) w1) = Inr rs \<longrightarrow>
      (q_ids results \<noteq> [] \<longrightarrow> length rs = length (hd (q_ids results))) \<and>
      (\<forall>i < length rs. ds \<noteq> [] \<and> i < length (hd ds) \<and> sr_score (rs ! i) = 1 - hd ds ! i)) \<and>
   (embed_query (query request) = Inr qv \<longrightarrow>
    search qv (top_k request) = Inr points \<longrightarrow>
    qdrant_chat embed_query search invoke request = Inr (a, srcs) \<longrightarrow>
      map qs_score srcs = map sp_score points) \<and>
   (get_llm_client env = Inr () \<longrightarrow>
    \<not> is_simple_greeting (query request) \<longrightarrow>
    get_embedding env (query request) True w = (Inr v, w1) \<longrightarrow>
    search_similar_chunks env v (top_k request) w1 = (Inr rs, w2) \<longrightarrow>
    fst (chat env request w) = Inr resp \<longrightarrow>
    sources resp \<noteq> [] \<longrightarrow>
      map s_score (sources resp) = map sr_score rs \<and>
      max_score_of rs = Max (set (map s_score (sources resp))) \<and>
      \<not> max_score_of rs < 0.3)"
proof -
  have a: "collection_query env (collection w1) v (top_k request) = Inr results \<longrightarrow>
    q_distances results = Some ds \<longrightarrow>
    fst (search_similar_chunks env v (top_k request) w1) = Inr rs \<longrightarrow>
      (q_ids results \<noteq> [] \<longrightarrow> length rs = length (hd (q_ids results))) \<and>
      (\<forall>i < length rs. ds \<noteq> [] \<and> i < length (hd ds) \<and> sr_score (rs ! i) = 1 - hd ds ! i)"
    by (intro impI) (rule search_scores)
  have b: "embed_query (query request) = Inr qv \<longrightarrow>
    search qv (top_k request) = Inr points \<longrightarrow>
    qdrant_chat embed_query search invoke request = Inr (a, srcs) \<longrightarrow>
      map qs_score srcs = map sp_score points"
    by (intro impI) (rule qdrant_chat_scores)
  have c: "get_llm_client env = Inr () \<longrightarrow>
    \<not> is_simple_greeting (query request) \<longrightarrow>
    get_embedding env (query request) True w = (Inr v, w1) \<longrightarrow>
    search_similar_chunks env v (top_k request) w1 = (Inr rs, w2) \<longrightarrow>
    fst (chat env request w) = Inr resp \<longrightarrow>
    sources resp \<noteq> [] \<longrightarrow>
      map s_score (sources resp) = map sr_score rs \<and>
      max_score_of rs = Max (set (map s_score (sources resp))) \<and>
      \<not> max_score_of rs < 0.3"
    by (intro impI) (rule chat_sources_scores)
  show ?thesis by (rule conjI [OF a conjI [OF b c]])
qed

lemma chat_two_grounded:
  "fst (chat (searching_services 0.1 0.6)
         \<lparr>query = ''what is machine learning'', top_k = Some 5\<rparr> empty_world) =
     Inr \<lparr>answer = ''ok'', sources = map source_of (two_found (1 - 0.1) (1 - 0.6))\<rparr>"
proof -
  let ?req = "\<lparr>query = ''what is machine learning'', top_k = Some 5\<rparr>"
  let ?env = "searching_services 0.1 0.6"
  have llm: "get_llm_client ?env = Inr ()"
    by (simp add: get_llm_client_def searching_services_def demo_services_def)
  have ng: "\<not> is_simple_greeting (query ?req)" by code_simp
  have emb: "get_embedding ?env (query ?req) True empty_world
               = (Inr [1, 0], record_call (FeatureExtraction (formatted_text True (query ?req)))
                     empty_world)"
    by (simp add: embed_demo)
  have srch: "search_similar_chunks ?env [1, 0] (top_k ?req)
                (record_call (FeatureExtraction (formatted_text True (query ?req))) empty_world)
               = (Inr (two_found (1 - 0.1) (1 - 0.6)),
                  record_call (CollectionQuery [1, 0] (top_k ?req))
                    (record_call (FeatureExtraction (formatted_text True (query ?req)))
                      empty_world))"
    by (rule search_two)
  have ne: "two_found (1 - 0.1) (1 - 0.6) \<noteq> []" by (simp add: two_found_def)
  have hi: "\<not> Max (set (map sr_score (two_found (1 - 0.1) (1 - 0.6)))) < 0.3"
    by (simp add: two_found_def)
  have ok: "completions_create ?env r = Inr ''ok''" for r
    by (simp add: searching_services_def demo_services_def)
  from chat_gate [OF llm ng emb srch ne] hi
  have "chat ?env ?req empty_world =
          grounded ?env (query ?req) (two_found (1 - 0.1) (1 - 0.6))
            (record_call (CollectionQuery [1, 0] (top_k ?req))
              (record_call (FeatureExtraction (formatted_text True (query ?req))) empty_world))"
    by (simp only: if_False)
  from gate_high [OF this] ok show ?thesis by blast
qed

text \<open>
  The theorem at the question \<open>what is machine learning\<close> with neighbours at distances
  0.1 and 0.6, and at the two sample points of the earlier pipeline.
\<close>

theorem score_conversion_uniform_witness:
  "q_distances (two_neighbours 0.1 0.6) = Some [[0.1, 0.6]] \<and>
   fst (search_similar_chunks (searching_services 0.1 0.6) [1, 0] (Some 5)
          (record_call (FeatureExtraction (formatted_text True ''what is machine learning''))
             empty_world)) = Inr (two_found 0.9 0.4) \<and>
   sr_score (two_found 0.9 0.4 ! 0) = 1 - 0.1 \<and> sr_score (two_found 0.9 0.4 ! 1) = 1 - 0.6 \<and>
   qdrant_chat (\<lambda>q. Inr [1, 0]) (\<lambda>v k. Inr sample_points) (\<lambda>p. Inr ''ok'')
     \<lparr>query = ''what is machine learning'', top_k = Some 5\<rparr> =
     Inr (''ok'', [\<lparr>qs_file_name = ''notes.pdf'', qs_page = 1, qs_chunk_id = 0, qs_score = 0.82\<rparr>,
                   \<lparr>qs_file_name = ''notes.pdf'', qs_page = 2, qs_chunk_id = 1, qs_score = 0.35\<rparr>]) \<and>
   map sp_score sample_points = [0.82, 0.35] \<and>
   fst (chat (searching_services 0.1 0.6)
          \<lparr>query = ''what is machine learning'', top_k = Some 5\<rparr> empty_world) =
     Inr \<lparr>answer = ''ok'', sources = map source_of (two_found 0.9 0.4)\<rparr> \<and>
   map s_score (sources (\<lparr>answer = ''ok'', sources = map source_of (two_found 0.9 0.4)\<rparr>))
     = [0.9, 0.4] \<and>
   max_score_of (two_found 0.9 0.4) = 0.9"
proof -
  let ?req = "\<lparr>query = ''what is machine learning'', top_k = Some 5\<rparr>"
  let ?env = "searching_services 0.1 0.6"
  let ?w1 = "record_call (FeatureExtraction (formatted_text True (query ?req))) empty_world"
  let ?w2 = "record_call (CollectionQuery [1, 0] (top_k ?req)) ?w1"
  let ?srcs = "[\<lparr>qs_file_name = ''notes.pdf'', qs_page = 1, qs_chunk_id = 0, qs_score = 0.82\<rparr>,
                \<lparr>qs_file_name = ''notes.pdf'', qs_page = 2, qs_chunk_id = 1, qs_score = 0.35\<rparr>]"
  let ?resp = "\<lparr>answer = ''ok'', sources = map source_of (two_found (1 - 0.1) (1 - 0.6))\<rparr>"
  have q: "collection_query ?env (collection ?w1) [1, 0] (top_k ?req)
             = Inr (two_neighbours 0.1 0.6)"
    by (simp add: searching_services_def)
  have d: "q_distances (two_neighbours 0.1 0.6) = Some [[0.1, 0.6]]"
    by (simp add: two_neighbours_def)
  have srch: "search_similar_chunks ?env [1, 0] (top_k ?req) ?w1
                = (Inr (two_found (1 - 0.1) (1 - 0.6)), ?w2)"
    by (rule search_two)
  then have s: "fst (search_similar_chunks ?env [1, 0] (top_k ?req) ?w1)
                = Inr (two_found (1 - 0.1) (1 - 0.6))"
    by simp
  have e: "(\<lambda>q. Inr [1, 0]) (query ?req) = (Inr [1, 0] :: exn + vector)" by simp
  have p: "(\<lambda>v k. Inr sample_points) [1, 0] (top_k ?req) = (Inr sample_points :: exn + scored_point list)"
    by simp
  have qc: "qdrant_chat (\<lambda>q. Inr [1, 0]) (\<lambda>v k. Inr sample_points) (\<lambda>p. Inr ''ok'') ?req
              = Inr (''ok'', ?srcs)"
    by (simp add: qdrant_chat_def sample_points_def bind_exn_def dict_item_def)
  have llm: "get_llm_client ?env = Inr ()"
    by (simp add: get_llm_client_def searching_services_def demo_services_def)
  have ng: "\<not> is_simple_greeting (query ?req)" by code_simp
  have emb: "get_embedding ?env (query ?req) True empty_world = (Inr [1, 0], ?w1)"
    by (simp add: embed_demo)
  have r: "fst (chat ?env ?req empty_world) = Inr ?resp"
    by (rule chat_two_grounded)
  have ne: "sources ?resp \<noteq> []" by (simp add: two_found_def)
  note t = score_conversion_uniform [of ?env ?w1 "[1, 0]" ?req "two_neighbours 0.1 0.6"
      "[[0.1, 0.6]]" "two_found (1 - 0.1) (1 - 0.6)" "\<lambda>q. Inr [1, 0]" "[1, 0]"
      "\<lambda>v k. Inr sample_points" sample_points "\<lambda>p. Inr ''ok''" "''ok''" ?srcs empty_world ?w2 ?resp]
  from t q d s have a: "\<forall>i < length (two_found (1 - 0.1) (1 - 0.6)).
        sr_score (two_found (1 - 0.1) (1 - 0.6) ! i) = 1 - hd [[0.1, 0.6]] ! i"
    by blast
  from t e p qc have b: "map qs_score ?srcs = map sp_score sample_points" by blast
  from t llm ng emb srch r ne
  have c: "map s_score (sources ?resp) = map sr_score (two_found (1 - 0.1) (1 - 0.6)) \<and>
      max_score_of (two_found (1 - 0.1) (1 - 0.6)) = Max (set (map s_score (sources ?resp)))"
    by blast
  have l: "length (two_found (1 - 0.1) (1 - 0.6)) = 2" by (simp add: two_found_def)
  from a l have a0: "sr_score (two_found (1 - 0.1) (1 - 0.6) ! 0) = 1 - hd [[0.1, 0.6]] ! 0"
    by simp
  from a l have a1: "sr_score (two_found (1 - 0.1) (1 - 0.6) ! 1) = 1 - hd [[0.1, 0.6]] ! 1"
    by simp
  have n: "(1 - 0.1 :: real) = 0.9 \<and> (1 - 0.6 :: real) = 0.4" by simp
  from d s qc b c a0 a1 r show ?thesis
    by (simp add: n two_found_def source_of_def)
qed

section \<open>Properties of the ingestion\<close>

lemma get_embedding_world:
  assumes "get_embedding env t q w = (r, w')"
  shows "collection w' = collection w \<and> uuids_drawn w' = uuids_drawn w \<and>
         (calls w' = calls w \<or> calls w' = calls w @ [FeatureExtraction (formatted_text q t)])"
  using assms
  by (auto simp add: get_embedding_def record_call_def Let_def split: sum.splits)

lemma get_embedding_success:
  assumes "get_embedding env t q w = (Inr v, w')"
  shows "calls w' = calls w @ [FeatureExtraction (formatted_text q t)]"
  using assms
  by (auto simp add: get_embedding_def record_call_def Let_def split: sum.splits)

lemma embed_chunks_world:
  assumes "embed_chunks env did fn ts pg chunks b w = (r, w')"
  shows "collection w' = collection w \<and>
         (\<exists>fs. calls w' = calls w @ fs \<and> (\<forall>c \<in> set fs. is_feature_extraction c) \<and>
               (\<forall>b'. r = Inr b' \<longrightarrow> fs = map FeatureExtraction chunks))"
  using assms
proof (induction chunks arbitrary: b w)
  case Nil
  then show ?case by auto
next
  case (Cons chunk chunks)
  obtain r1 w1 where g: "get_embedding env chunk False w = (r1, w1)"
    by (cases "get_embedding env chunk False w")
  note gw = get_embedding_world [OF g]
  show ?case
  proof (cases r1)
    case (Inl e)
    with Cons.prems g have "w' = w1" "r = Inl e" by simp_all
    with gw show ?thesis
      by (auto simp add: is_feature_extraction_def formatted_text_def)
  next
    case (Inr v)
    with g have gs: "calls w1 = calls w @ [FeatureExtraction chunk]"
      using get_embedding_success [of env chunk False w v w1] by (simp add: formatted_text_def)
    from Cons.prems g Inr obtain b1 w2 where
      rec: "embed_chunks env did fn ts pg chunks b1 w2 = (r, w')"
      and w2: "collection w2 = collection w1" "calls w2 = calls w1"
      by (auto simp add: draw_uuid_def)
    from Cons.IH [OF rec] obtain fs where
      fs: "collection w' = collection w2" "calls w' = calls w2 @ fs"
          "\<forall>c \<in> set fs. is_feature_extraction c"
          "\<forall>b'. r = Inr b' \<longrightarrow> fs = map FeatureExtraction chunks"
      by blast
    show ?thesis
    proof (intro conjI exI [of _ "FeatureExtraction chunk # fs"])
      show "collection w' = collection w" using fs(1) w2(1) gw by simp
      show "calls w' = calls w @ FeatureExtraction chunk # fs" using fs(2) w2(2) gs by simp
      show "\<forall>c \<in> set (FeatureExtraction chunk # fs). is_feature_extraction c"
        using fs(3) by (simp add: is_feature_extraction_def)
      show "\<forall>b'. r = Inr b' \<longrightarrow> FeatureExtraction chunk # fs = map FeatureExtraction (chunk # chunks)"
        using fs(4) by simp
    qed
  qed
qed

lemma embed_chunks_batch:
  assumes "embed_chunks env did fn ts pg chunks b w = (Inr b', w')"
  shows "(\<exists>ids. all_ids b' = all_ids b @ ids \<and> length ids = length chunks) \<and>
         (\<exists>embs. all_embeddings b' = all_embeddings b @ embs \<and> length embs = length chunks) \<and>
         all_metadatas b' = all_metadatas b @
           map (\<lambda>k. chunk_metadata did fn ts pg (chunk_id b + int k)) [0 ..< length chunks] \<and>
         all_documents b' = all_documents b @ chunks \<and>
         chunk_id b' = chunk_id b + int (length chunks)"
  using assms
proof (induction chunks arbitrary: b w)
  case Nil
  then show ?case by simp
next
  case (Cons chunk chunks)
  from Cons.prems obtain v w1 cu w2 where
    rec: "embed_chunks env did fn ts pg chunks
            \<lparr>all_ids = all_ids b @ [cu], all_embeddings = all_embeddings b @ [v],
             all_metadatas = all_metadatas b @ [chunk_metadata did fn ts pg (chunk_id b)],
             all_documents = all_documents b @ [chunk], chunk_id = chunk_id b + 1\<rparr> w2 = (Inr b', w')"
    by (auto simp add: chunk_metadata_def split: prod.splits sum.splits)
  have shift: "map (\<lambda>k. chunk_metadata did fn ts pg (chunk_id b + int k)) [0 ..< Suc (length chunks)]
        = chunk_metadata did fn ts pg (chunk_id b) #
          map (\<lambda>k. chunk_metadata did fn ts pg (chunk_id b + 1 + int k)) [0 ..< length chunks]"
    by (simp add: upt_conv_Cons map_Suc_upt [symmetric] add.assoc del: upt_Suc)
  from Cons.IH [OF rec] obtain ids embs where
    ih: "all_ids b' = (all_ids b @ [cu]) @ ids" "length ids = length chunks"
        "all_embeddings b' = (all_embeddings b @ [v]) @ embs" "length embs = length chunks"
        "all_metadatas b' = (all_metadatas b @ [chunk_metadata did fn ts pg (chunk_id b)]) @
           map (\<lambda>k. chunk_metadata did fn ts pg (chunk_id b + 1 + int k)) [0 ..< length chunks]"
        "all_documents b' = (all_documents b @ [chunk]) @ chunks"
        "chunk_id b' = chunk_id b + 1 + int (length chunks)"
    by auto
  show ?case
  proof (intro conjI)
    show "\<exists>ids. all_ids b' = all_ids b @ ids \<and> length ids = length (chunk # chunks)"
      using ih(1,2) by (intro exI [of _ "cu # ids"]) simp
    show "\<exists>embs. all_embeddings b' = all_embeddings b @ embs \<and> length embs = length (chunk # chunks)"
      using ih(3,4) by (intro exI [of _ "v # embs"]) simp
    show "all_metadatas b' = all_metadatas b @
           map (\<lambda>k. chunk_metadata did fn ts pg (chunk_id b + int k)) [0 ..< length (chunk # chunks)]"
      using ih(5) by (simp add: shift del: upt_Suc)
    show "all_documents b' = all_documents b @ chunk # chunks" using ih(6) by simp
    show "chunk_id b' = chunk_id b + int (length (chunk # chunks))" using ih(7) by simp
  qed
qed

lemma embed_pages_world:
  assumes "embed_pages env did fn ts text_pages b w = (r, w')"
  shows "collection w' = collection w \<and>
         (\<exists>fs. calls w' = calls w @ fs \<and> (\<forall>c \<in> set fs. is_feature_extraction c) \<and>
               (\<forall>b'. r = Inr b' \<longrightarrow>
                  fs = map FeatureExtraction (map fst (extraction_order env text_pages))))"
  using assms
proof (induction text_pages arbitrary: b w)
  case Nil
  then show ?case by auto
next
  case (Cons page text_pages)
  obtain ptext pg where page: "page = (ptext, pg)" by (cases page)
  show ?case
  proof (cases "split_text env ptext")
    case (Inl e)
    with Cons.prems page show ?thesis by auto
  next
    case (Inr chunks)
    obtain r1 w1 where ec: "embed_chunks env did fn ts pg chunks b w = (r1, w1)"
      by (cases "embed_chunks env did fn ts pg chunks b w")
    from embed_chunks_world [OF ec] obtain fs1 where
      c1: "collection w1 = collection w" "calls w1 = calls w @ fs1"
          "\<forall>c \<in> set fs1. is_feature_extraction c"
          "\<forall>b'. r1 = Inr b' \<longrightarrow> fs1 = map FeatureExtraction chunks"
      by blast
    show ?thesis
    proof (cases r1)
      case (Inl e)
      with Cons.prems page Inr ec have "r = Inl e" "w' = w1" by simp_all
      with c1 show ?thesis by auto
    next
      case b1: (Inr b1)
      with Cons.prems page Inr ec
      have rec: "embed_pages env did fn ts text_pages b1 w1 = (r, w')" by simp
      from Cons.IH [OF rec] obtain fs2 where
        c2: "collection w' = collection w1" "calls w' = calls w1 @ fs2"
            "\<forall>c \<in> set fs2. is_feature_extraction c"
            "\<forall>b'. r = Inr b' \<longrightarrow>
               fs2 = map FeatureExtraction (map fst (extraction_order env text_pages))"
        by blast
      show ?thesis
      proof (intro conjI exI [of _ "fs1 @ fs2"])
        show "collection w' = collection w" using c1(1) c2(1) by simp
        show "calls w' = calls w @ fs1 @ fs2" using c1(2) c2(2) by simp
        show "\<forall>c \<in> set (fs1 @ fs2). is_feature_extraction c" using c1(3) c2(3) by auto
        show "\<forall>b'. r = Inr b' \<longrightarrow>
                fs1 @ fs2 = map FeatureExtraction (map fst (extraction_order env (page # text_pages)))"
          using c1(4) c2(4) b1 page Inr by (simp add: comp_def)
      qed
    qed
  qed
qed

lemma embed_pages_batch:
  assumes "embed_pages env did fn ts text_pages b w = (Inr b', w')"
  shows "\<exists>ids embs ms.
           all_ids b' = all_ids b @ ids \<and> all_embeddings b' = all_embeddings b @ embs \<and>
           all_metadatas b' = all_metadatas b @ ms \<and>
           all_documents b' = all_documents b @ map fst (extraction_order env text_pages) \<and>
           chunk_id b' = chunk_id b + int (length (extraction_order env text_pages)) \<and>
           length ids = length (extraction_order env text_pages) \<and>
           length embs = length (extraction_order env text_pages) \<and>
           length ms = length (extraction_order env text_pages) \<and>
           map m_chunk_id ms =
             map (\<lambda>k. Some (chunk_id b + int k)) [0 ..< length (extraction_order env text_pages)] \<and>
           map m_page ms = map (\<lambda>cp. Some (snd cp)) (extraction_order env text_pages) \<and>
           (\<forall>m \<in> set ms. m_doc_id m = Some did \<and> m_file_name m = Some fn \<and>
                          m_upload_timestamp m = ts)"
  using assms
proof (induction text_pages arbitrary: b w)
  case Nil
  then show ?case by simp
next
  case (Cons page text_pages)
  obtain ptext pg where page: "page = (ptext, pg)" by (cases page)
  from Cons.prems page obtain chunks where sp: "split_text env ptext = Inr chunks"
    by (cases "split_text env ptext") simp_all
  obtain r1 w1 where ec0: "embed_chunks env did fn ts pg chunks b w = (r1, w1)"
    by (cases "embed_chunks env did fn ts pg chunks b w")
  from Cons.prems page sp ec0 obtain b1 where r1: "r1 = Inr b1"
    by (cases r1) simp_all
  from ec0 r1 have ec: "embed_chunks env did fn ts pg chunks b w = (Inr b1, w1)" by simp
  from Cons.prems page sp ec
  have rec: "embed_pages env did fn ts text_pages b1 w1 = (Inr b', w')" by simp
  let ?n1 = "length chunks"
  let ?ord = "extraction_order env text_pages"
  let ?ms1 = "map (\<lambda>k. chunk_metadata did fn ts pg (chunk_id b + int k)) [0 ..< ?n1]"
  note e1 = embed_chunks_batch [OF ec]
  from e1 obtain ids1 where ids1: "all_ids b1 = all_ids b @ ids1" "length ids1 = ?n1"
    by blast
  from e1 obtain embs1 where embs1: "all_embeddings b1 = all_embeddings b @ embs1" "length embs1 = ?n1"
    by blast
  from Cons.IH [OF rec] obtain ids2 embs2 ms2 where
    i2: "all_ids b' = all_ids b1 @ ids2" "all_embeddings b' = all_embeddings b1 @ embs2"
        "all_metadatas b' = all_metadatas b1 @ ms2"
        "all_documents b' = all_documents b1 @ map fst ?ord"
        "chunk_id b' = chunk_id b1 + int (length ?ord)"
        "length ids2 = length ?ord" "length embs2 = length ?ord" "length ms2 = length ?ord"
        "map m_chunk_id ms2 = map (\<lambda>k. Some (chunk_id b1 + int k)) [0 ..< length ?ord]"
        "map m_page ms2 = map (\<lambda>cp. Some (snd cp)) ?ord"
        "\<forall>m \<in> set ms2. m_doc_id m = Some did \<and> m_file_name m = Some fn \<and>
                          m_upload_timestamp m = ts"
    by (elim exE conjE) (rule that; assumption)
  have ord: "extraction_order env (page # text_pages) = map (\<lambda>c. (c, pg)) chunks @ ?ord"
    using page sp by simp
  have cid: "map m_chunk_id (?ms1 @ ms2) =
      map (\<lambda>k. Some (chunk_id b + int k)) [0 ..< ?n1 + length ?ord]"
  proof -
    have split: "[0 ..< ?n1 + length ?ord] = [0 ..< ?n1] @ [?n1 ..< ?n1 + length ?ord]"
      by (rule upt_add_eq_append) simp
    have "map (\<lambda>k. k + ?n1) [0 ..< length ?ord] = [?n1 ..< length ?ord + ?n1]"
      by (rule map_add_upt)
    then have shift: "[?n1 ..< ?n1 + length ?ord] = map (\<lambda>k. k + ?n1) [0 ..< length ?ord]"
      by (simp only: add.commute)
    have first: "map m_chunk_id ?ms1 = map (\<lambda>k. Some (chunk_id b + int k)) [0 ..< ?n1]"
      by (simp add: chunk_metadata_def comp_def)
    have b1: "chunk_id b1 = chunk_id b + int ?n1" using e1 by simp
    have second: "map m_chunk_id ms2 =
        map (\<lambda>k. Some (chunk_id b + int k)) (map (\<lambda>k. k + ?n1) [0 ..< length ?ord])"
      unfolding i2(9) b1 by (simp add: comp_def add.commute add.left_commute)
    show ?thesis
      unfolding split shift map_append first second ..
  qed
  show ?case
  proof (intro exI [of _ "ids1 @ ids2"] exI [of _ "embs1 @ embs2"] exI [of _ "?ms1 @ ms2"] conjI)
    show "all_ids b' = all_ids b @ ids1 @ ids2" using ids1 i2 by simp
    show "all_embeddings b' = all_embeddings b @ embs1 @ embs2" using embs1 i2 by simp
    show "all_metadatas b' = all_metadatas b @ ?ms1 @ ms2" using e1 i2 by simp
    show "all_documents b' = all_documents b @ map fst (extraction_order env (page # text_pages))"
      using e1 i2 ord by (simp add: comp_def)
    show "chunk_id b' = chunk_id b + int (length (extraction_order env (page # text_pages)))"
      using e1 i2 ord by simp
    show "length (ids1 @ ids2) = length (extraction_order env (page # text_pages))"
      using ids1 i2 ord by simp
    show "length (embs1 @ embs2) = length (extraction_order env (page # text_pages))"
      using embs1 i2 ord by simp
    show "length (?ms1 @ ms2) = length (extraction_order env (page # text_pages))"
      using i2 ord by simp
    show "map m_chunk_id (?ms1 @ ms2) =
      map (\<lambda>k. Some (chunk_id b + int k)) [0 ..< length (extraction_order env (page # text_pages))]"
      using cid ord by simp
    show "map m_page (?ms1 @ ms2) = map (\<lambda>cp. Some (snd cp)) (extraction_order env (page # text_pages))"
      using i2(10) ord by (simp add: chunk_metadata_def comp_def map_replicate_const)
    show "\<forall>m \<in> set (?ms1 @ ms2). m_doc_id m = Some did \<and> m_file_name m = Some fn \<and>
                          m_upload_timestamp m = ts"
      using i2(11) by (auto simp add: chunk_metadata_def)
  qed
qed


lemma make_rows_maps:
  "length embs = length ids \<Longrightarrow> length ms = length ids \<Longrightarrow> length docs = length ids \<Longrightarrow>
   length (make_rows ids embs ms docs) = length ids \<and>
   map r_id (make_rows ids embs ms docs) = ids \<and>
   map r_metadata (make_rows ids embs ms docs) = ms \<and>
   map r_document (make_rows ids embs ms docs) = docs"
proof (induction ids arbitrary: embs ms docs)
  case Nil
  then show ?case by simp
next
  case (Cons i ids)
  then obtain e embs' m ms' d docs' where
    "embs = e # embs'" "ms = m # ms'" "docs = d # docs'"
    by (cases embs; cases ms; cases docs) simp_all
  with Cons show ?case by simp
qed

lemma store_stages:
  "process_and_store_document env fp fn ts w =
     (case extract_text env fp fn of
        Inl e \<Rightarrow> (Inl e, w)
      | Inr text_pages \<Rightarrow>
          if text_pages = []
          then (Inl (ValueError ''No text could be extracted from the document.''), w)
          else
            (case embed_pages env (uuid4 env (uuids_drawn w)) fn ts text_pages empty_batch
                    (w\<lparr>uuids_drawn := Suc (uuids_drawn w)\<rparr>) of
               (Inl e, w1) \<Rightarrow> (Inl e, w1)
             | (Inr b, w1) \<Rightarrow>
                 (case collection_add env (all_ids b) (all_embeddings b) (all_metadatas b)
                         (all_documents b) (collection w1) of
                    Inl e \<Rightarrow> (Inl e, record_call (CollectionAdd (all_ids b)) w1)
                  | Inr rows \<Rightarrow>
                      (Inr \<lparr>doc_id = uuid4 env (uuids_drawn w),
                            chunks_created = length (all_ids b)\<rparr>,
                       (record_call (CollectionAdd (all_ids b)) w1)\<lparr>collection := rows\<rparr>))))"
  by (simp add: process_and_store_document_def draw_uuid_def Let_def record_call_def
      split: sum.splits prod.splits)

lemma collection_add_stored:
  "collection_add env ids embs ms docs rows = Inr rows' \<Longrightarrow>
   ids \<noteq> [] \<and> rows' = rows @ make_rows ids embs ms docs"
  by (simp add: collection_add_def split: if_splits)

lemma collection_add_refused:
  "collection_add env ids embs ms docs rows = Inl e \<Longrightarrow>
   ids = [] \<or> (\<exists>m \<in> set ms. has_none_value m)"
  by (auto simp add: collection_add_def filter_empty_conv split: if_splits)

lemma batch_none_value:
  assumes "embed_pages env did fn ts text_pages empty_batch w = (Inr b, w1)"
      and "m \<in> set (all_metadatas b)" and "has_none_value m"
  shows "ts = None"
proof -
  from embed_pages_batch [OF assms(1)] obtain ms where
    ms: "all_metadatas b = ms"
        "map m_chunk_id ms =
           map (\<lambda>k. Some (chunk_id empty_batch + int k))
             [0 ..< length (extraction_order env text_pages)]"
        "map m_page ms = map (\<lambda>cp. Some (snd cp)) (extraction_order env text_pages)"
        "\<forall>m \<in> set ms. m_doc_id m = Some did \<and> m_file_name m = Some fn \<and>
                       m_upload_timestamp m = ts"
    by (auto simp add: empty_batch_def)
  from assms(2) ms(1) have m: "m \<in> set ms" by simp
  then have "m_chunk_id m \<in> set (map m_chunk_id ms)" "m_page m \<in> set (map m_page ms)"
    by simp_all
  then have "m_chunk_id m \<noteq> None" "m_page m \<noteq> None"
    unfolding ms(2) ms(3) by auto
  with m ms(4) assms(3) show ?thesis by (auto simp add: has_none_value_def)
qed

lemma store_failure:
  assumes "process_and_store_document env fp fn ts w = (Inl e, w')"
  shows "collection w' = collection w \<and>
         (\<exists>fs. (\<forall>c \<in> set fs. is_feature_extraction c) \<and>
               (calls w' = calls w @ fs \<or>
                (\<exists>ids. calls w' = calls w @ fs @ [CollectionAdd ids] \<and>
                       (ids = [] \<or> ts = None))))"
proof (cases "extract_text env fp fn")
  case (Inl x)
  with assms have "w' = w" by (simp add: store_stages)
  then show ?thesis by (intro conjI exI [of _ "[]"]) simp_all
next
  case (Inr text_pages)
  show ?thesis
  proof (cases "text_pages = []")
    case True
    with assms Inr have "w' = w" by (simp add: store_stages)
    then show ?thesis by (intro conjI exI [of _ "[]"]) simp_all
  next
    case False
    let ?w0 = "w\<lparr>uuids_drawn := Suc (uuids_drawn w)\<rparr>"
    obtain r w1 where ep:
      "embed_pages env (uuid4 env (uuids_drawn w)) fn ts text_pages empty_batch ?w0 = (r, w1)"
      by (cases "embed_pages env (uuid4 env (uuids_drawn w)) fn ts text_pages empty_batch ?w0")
    from embed_pages_world [OF ep] obtain fs where
      fs: "collection w1 = collection w" "calls w1 = calls w @ fs"
          "\<forall>c \<in> set fs. is_feature_extraction c"
      by auto
    show ?thesis
    proof (cases r)
      case (Inl x)
      with assms Inr False ep have "w' = w1" by (simp add: store_stages)
      with fs show ?thesis by auto
    next
      case b: (Inr b)
      let ?add = "collection_add env (all_ids b) (all_embeddings b) (all_metadatas b)
                    (all_documents b) (collection w1)"
      from assms Inr False ep b obtain x where
        refused: "?add = Inl x" and w': "w' = record_call (CollectionAdd (all_ids b)) w1"
        by (cases ?add) (simp_all add: store_stages)
      from ep b have ep': "embed_pages env (uuid4 env (uuids_drawn w)) fn ts text_pages
                             empty_batch ?w0 = (Inr b, w1)"
        by simp
      from collection_add_refused [OF refused] batch_none_value [OF ep']
      have why: "all_ids b = [] \<or> ts = None" by blast
      have c: "collection w' = collection w" using w' fs(1) by (simp add: record_call_def)
      have k: "calls w' = calls w @ fs @ [CollectionAdd (all_ids b)]"
        using w' fs(2) by (simp add: record_call_def)
      from c k why fs(3) show ?thesis by blast
    qed
  qed
qed


lemma store_success:
  assumes "process_and_store_document env fp fn ts w = (Inr res, w')"
  shows "\<exists>text_pages.
           extract_text env fp fn = Inr text_pages \<and> text_pages \<noteq> [] \<and>
           doc_id res = uuid4 env (uuids_drawn w) \<and>
           chunks_created res = length (extraction_order env text_pages) \<and>
           0 < chunks_created res \<and>
           collection w' = collection w @ new_rows w w' \<and>
           length (new_rows w w') = chunks_created res \<and>
           map m_chunk_id (map r_metadata (new_rows w w')) =
             map (\<lambda>k. Some (int k)) [0 ..< chunks_created res] \<and>
           map m_page (map r_metadata (new_rows w w')) =
             map (\<lambda>cp. Some (snd cp)) (extraction_order env text_pages) \<and>
           map r_document (new_rows w w') = map fst (extraction_order env text_pages) \<and>
           (\<forall>m \<in> set (map r_metadata (new_rows w w')).
              m_doc_id m = Some (doc_id res) \<and> m_file_name m = Some fn \<and>
              m_upload_timestamp m = ts) \<and>
           calls w' = calls w @ map FeatureExtraction (map fst (extraction_order env text_pages))
                        @ [CollectionAdd (map r_id (new_rows w w'))]"
proof -
  from assms obtain text_pages where ex: "extract_text env fp fn = Inr text_pages"
    by (cases "extract_text env fp fn") (simp_all add: store_stages)
  from assms ex have ne: "text_pages \<noteq> []"
    by (auto simp add: store_stages)
  let ?did = "uuid4 env (uuids_drawn w)"
  let ?w0 = "w\<lparr>uuids_drawn := Suc (uuids_drawn w)\<rparr>"
  let ?ord = "extraction_order env text_pages"
  obtain r w1 where ep: "embed_pages env ?did fn ts text_pages empty_batch ?w0 = (r, w1)"
    by (cases "embed_pages env ?did fn ts text_pages empty_batch ?w0")
  from assms ex ne ep obtain b where r: "r = Inr b"
    by (cases r) (simp_all add: store_stages)
  let ?rows = "make_rows (all_ids b) (all_embeddings b) (all_metadatas b) (all_documents b)"
  let ?add = "collection_add env (all_ids b) (all_embeddings b) (all_metadatas b)
                (all_documents b) (collection w1)"
  from assms ex ne ep r obtain rows where
    added: "?add = Inr rows"
    and res: "res = \<lparr>doc_id = ?did, chunks_created = length (all_ids b)\<rparr>"
    and w0': "w' = (record_call (CollectionAdd (all_ids b)) w1)\<lparr>collection := rows\<rparr>"
    by (cases ?add) (simp_all add: store_stages)
  from collection_add_stored [OF added] have ids_ne: "all_ids b \<noteq> []"
    and appended: "rows = collection w1 @ ?rows"
    by simp_all
  from w0' appended
  have w': "w' = (record_call (CollectionAdd (all_ids b)) w1)\<lparr>collection := collection w1 @ ?rows\<rparr>"
    by simp
  from ep r have ep': "embed_pages env ?did fn ts text_pages empty_batch ?w0 = (Inr b, w1)"
    by simp
  from embed_pages_world [OF ep'] have
    cw: "collection w1 = collection w"
    and calls: "calls w1 = calls w @ map FeatureExtraction (map fst ?ord)"
    by auto
  from embed_pages_batch [OF ep'] have
    b: "length (all_ids b) = length ?ord" "length (all_embeddings b) = length ?ord"
       "length (all_metadatas b) = length ?ord" "all_documents b = map fst ?ord"
       "map m_chunk_id (all_metadatas b) = map (\<lambda>k. Some (int k)) [0 ..< length ?ord]"
       "map m_page (all_metadatas b) = map (\<lambda>cp. Some (snd cp)) ?ord"
       "\<forall>m \<in> set (all_metadatas b). m_doc_id m = Some ?did \<and> m_file_name m = Some fn \<and>
                          m_upload_timestamp m = ts"
    by (auto simp add: empty_batch_def)
  have rows: "length ?rows = length (all_ids b)" "map r_id ?rows = all_ids b"
             "map r_metadata ?rows = all_metadatas b" "map r_document ?rows = all_documents b"
    using make_rows_maps [of "all_embeddings b" "all_ids b" "all_metadatas b" "all_documents b"] b
    by simp_all
  have new: "new_rows w w' = ?rows"
    by (simp add: new_rows_def w' cw)
  have nr: "length (new_rows w w') = length (all_ids b)"
            "map r_id (new_rows w w') = all_ids b"
            "map r_metadata (new_rows w w') = all_metadatas b"
            "map r_document (new_rows w w') = all_documents b"
    using rows by (simp_all only: new)
  show ?thesis
  proof (intro exI [of _ text_pages] conjI)
    show "extract_text env fp fn = Inr text_pages" by (rule ex)
    show "text_pages \<noteq> []" by (rule ne)
    show "doc_id res = ?did" by (simp add: res)
    show "chunks_created res = length ?ord" by (simp add: res b)
    show "0 < chunks_created res" using ids_ne by (simp add: res)
    show "collection w' = collection w @ new_rows w w'" by (simp add: new_rows_def w' cw)
    show "length (new_rows w w') = chunks_created res" by (simp add: nr res)
    show "map m_chunk_id (map r_metadata (new_rows w w')) =
             map (\<lambda>k. Some (int k)) [0 ..< chunks_created res]"
      by (simp add: nr b res)
    show "map m_page (map r_metadata (new_rows w w')) = map (\<lambda>cp. Some (snd cp)) ?ord"
      by (simp add: nr b)
    show "map r_document (new_rows w w') = map fst ?ord" by (simp add: nr b)
    show "\<forall>m \<in> set (map r_metadata (new_rows w w')).
              m_doc_id m = Some (doc_id res) \<and> m_file_name m = Some fn \<and>
              m_upload_timestamp m = ts"
      using b(7) by (simp add: nr res)
    show "calls w' = calls w @ map FeatureExtraction (map fst ?ord)
                        @ [CollectionAdd (map r_id (new_rows w w'))]"
      unfolding nr by (simp add: w' calls record_call_def)
  qed
qed



lemma get_embedding_raises:
  assumes "get_embeddings_client env = Inl e \<or> feature_extraction env c = Inl e \<or>
           (feature_extraction env c = Inr a \<and> first_row a = Inl e)"
  shows "\<exists>e'. fst (get_embedding env c False w) = Inl e'"
  using assms
  by (auto simp add: get_embedding_def formatted_text_def Let_def split: sum.splits)

lemma embed_chunks_raises:
  assumes "c \<in> set chunks"
      and "get_embeddings_client env = Inl e \<or> feature_extraction env c = Inl e \<or>
           (feature_extraction env c = Inr a \<and> first_row a = Inl e)"
  shows "\<exists>e'. fst (embed_chunks env did fn ts pg chunks b w) = Inl e'"
  using assms(1)
proof (induction chunks arbitrary: b w)
  case Nil
  then show ?case by simp
next
  case (Cons chunk chunks)
  obtain r1 w1 where g: "get_embedding env chunk False w = (r1, w1)"
    by (cases "get_embedding env chunk False w")
  show ?case
  proof (cases r1)
    case (Inl x)
    with g show ?thesis by simp
  next
    case (Inr v)
    have "c \<noteq> chunk"
    proof
      assume "c = chunk"
      with get_embedding_raises [OF assms(2), of w] g Inr show False by simp
    qed
    with Cons.prems have mem: "c \<in> set chunks" by simp
    obtain cu w2 where d: "draw_uuid env w1 = (cu, w2)" by (cases "draw_uuid env w1")
    from Cons.IH [OF mem] g Inr d show ?thesis by simp
  qed
qed

lemma embed_pages_raises:
  assumes "(ptext, pg) \<in> set text_pages"
      and "split_text env ptext = Inl e \<or>
           (split_text env ptext = Inr chunks \<and> c \<in> set chunks \<and>
            (get_embeddings_client env = Inl e \<or> feature_extraction env c = Inl e \<or>
             (feature_extraction env c = Inr a \<and> first_row a = Inl e)))"
  shows "\<exists>e'. fst (embed_pages env did fn ts text_pages b w) = Inl e'"
  using assms(1)
proof (induction text_pages arbitrary: b w)
  case Nil
  then show ?case by simp
next
  case (Cons page text_pages)
  obtain qtext qg where page: "page = (qtext, qg)" by (cases page)
  show ?case
  proof (cases "split_text env qtext")
    case (Inl x)
    with page show ?thesis by simp
  next
    case split: (Inr qchunks)
    obtain r1 w1 where ec: "embed_chunks env did fn ts qg qchunks b w = (r1, w1)"
      by (cases "embed_chunks env did fn ts qg qchunks b w")
    show ?thesis
    proof (cases r1)
      case (Inl x)
      with page split ec show ?thesis by simp
    next
      case b1: (Inr b1)
      have "(ptext, pg) \<noteq> page"
      proof
        assume same: "(ptext, pg) = page"
        with page have q: "qtext = ptext" "qg = pg" by simp_all
        from assms(2) split q obtain
          "split_text env ptext = Inr chunks" "c \<in> set chunks"
          "get_embeddings_client env = Inl e \<or> feature_extraction env c = Inl e \<or>
             (feature_extraction env c = Inr a \<and> first_row a = Inl e)"
          by auto
        with split q have "c \<in> set qchunks" by simp
        from embed_chunks_raises [OF this
            \<open>get_embeddings_client env = Inl e \<or> feature_extraction env c = Inl e \<or>
             (feature_extraction env c = Inr a \<and> first_row a = Inl e)\<close>, of did fn ts qg b w]
          ec b1
        show False by simp
      qed
      with Cons.prems have mem: "(ptext, pg) \<in> set text_pages" by auto
      from Cons.IH [OF mem] page split ec b1 show ?thesis by simp
    qed
  qed
qed

lemma store_stage_raises:
  assumes ex: "extract_text env fp fn = Inr text_pages"
      and mem: "(ptext, pg) \<in> set text_pages"
      and bad: "split_text env ptext = Inl e \<or>
           (split_text env ptext = Inr chunks \<and> c \<in> set chunks \<and>
            (get_embeddings_client env = Inl e \<or> feature_extraction env c = Inl e \<or>
             (feature_extraction env c = Inr a \<and> first_row a = Inl e)))"
  shows "(\<exists>e'. fst (process_and_store_document env fp fn ts w) = Inl e') \<and>
         collection (snd (process_and_store_document env fp fn ts w)) = collection w \<and>
         (\<exists>fs. calls (snd (process_and_store_document env fp fn ts w)) = calls w @ fs \<and>
               (\<forall>x \<in> set fs. is_feature_extraction x))"
proof -
  let ?w0 = "w\<lparr>uuids_drawn := Suc (uuids_drawn w)\<rparr>"
  let ?did = "uuid4 env (uuids_drawn w)"
  from mem have ne: "text_pages \<noteq> []" by auto
  obtain r w1 where ep: "embed_pages env ?did fn ts text_pages empty_batch ?w0 = (r, w1)"
    by (cases "embed_pages env ?did fn ts text_pages empty_batch ?w0")
  from embed_pages_raises [OF mem bad, of ?did fn ts empty_batch ?w0] ep
  obtain e' where r: "r = Inl e'" by auto
  from ex ne ep r have p: "process_and_store_document env fp fn ts w = (Inl e', w1)"
    by (simp add: store_stages)
  from embed_pages_world [OF ep] obtain fs where
    fs: "collection w1 = collection w" "calls w1 = calls w @ fs"
        "\<forall>x \<in> set fs. is_feature_extraction x"
    by auto
  show ?thesis
    unfolding p using fs by auto
qed

lemma stored_pages_split:
  assumes up: "process_and_store_document env fp fn ts w = (Inr res, w')"
      and ex: "extract_text env fp fn = Inr text_pages"
      and mem: "p \<in> set text_pages"
  shows "\<exists>chunks. split_text env (fst p) = Inr chunks"
proof (cases "split_text env (fst p)")
  case (Inl e)
  obtain ptext pg where p: "p = (ptext, pg)" by (cases p)
  with mem Inl have m: "(ptext, pg) \<in> set text_pages" and s: "split_text env ptext = Inl e"
    by simp_all
  from s have bad: "split_text env ptext = Inl e \<or>
           (split_text env ptext = Inr [] \<and> [] \<in> set [] \<and>
            (get_embeddings_client env = Inl e \<or> feature_extraction env [] = Inl e \<or>
             (feature_extraction env [] = Inr (Array1 []) \<and> first_row (Array1 []) = Inl e)))"
    by simp
  from store_stage_raises [OF ex m bad, of ts w] up show ?thesis by simp
next
  case (Inr chunks)
  then show ?thesis by blast
qed


lemma extract_notes:
  "extract_text (env\<lparr>pdf_pages := (\<lambda>p. Inr [''alpha'', ''beta'', ''gamma''])\<rparr>) fp ''notes.pdf''
     = Inr [(''alpha'', 1), (''beta'', 2), (''gamma'', 3)]"
  by (simp add: extract_text_def extract_text_from_pdf_def str_lower_def lower_char_def
      str_strip_def isspace_def)

lemma str_nat_digits:
  "str_nat 0 = ''0''" "str_nat (Suc 0) = ''1''" "str_nat (Suc (Suc 0)) = ''2''"
  "str_nat (Suc (Suc (Suc 0))) = ''3''" "str_nat (Suc (Suc (Suc (Suc 0)))) = ''4''"
  "str_nat 3 = ''3''"
  by code_simp+

lemma store_notes:
  "process_and_store_document demo_services ''/tmp/upload.pdf'' ''notes.pdf''
     (Some ''2024-05-01T10:00:00'') empty_world
   = (Inr \<lparr>doc_id = ''uuid-0'', chunks_created = 3\<rparr>, notes_world)"
proof -
  have e: "extract_text demo_services ''/tmp/upload.pdf'' ''notes.pdf''
             = Inr [(''alpha'', 1), (''beta'', 2), (''gamma'', 3)]"
    using extract_notes [of demo_services] by (simp add: demo_services_def)
  show ?thesis
    unfolding store_stages e
    by (simp add: demo_services_def empty_world_def empty_batch_def get_embedding_def
        get_embeddings_client_def formatted_text_def record_call_def draw_uuid_def Let_def
        str_nat_digits notes_world_def notes_rows_def collection_add_def has_none_value_def)
qed


lemma store_notes_failing:
  "process_and_store_document failing_services ''/tmp/upload.pdf'' ''notes.pdf''
     (Some ''2024-05-01T10:00:00'') empty_world
   = (Inl (OtherError ''503 Service Unavailable''),
      \<lparr>collection = [], uuids_drawn = 3,
       calls = [FeatureExtraction ''alpha'', FeatureExtraction ''beta'',
                FeatureExtraction ''gamma'']\<rparr>)"
proof -
  have e: "extract_text failing_services ''/tmp/upload.pdf'' ''notes.pdf''
             = Inr [(''alpha'', 1), (''beta'', 2), (''gamma'', 3)]"
    using extract_notes [of failing_services]
    by (simp add: failing_services_def demo_services_def)
  show ?thesis
    unfolding store_stages e
    by (simp add: failing_services_def demo_services_def empty_world_def empty_batch_def
        get_embedding_def get_embeddings_client_def formatted_text_def record_call_def
        draw_uuid_def Let_def str_nat_digits)
qed

lemma store_notes_unsplittable:
  "process_and_store_document unsplittable_services ''/tmp/upload.pdf'' ''notes.pdf''
     (Some ''2024-05-01T10:00:00'') empty_world
   = (Inl (OtherError ''splitter failed''),
      \<lparr>collection = [], uuids_drawn = 2, calls = [FeatureExtraction ''alpha'']\<rparr>)"
proof -
  have e: "extract_text unsplittable_services ''/tmp/upload.pdf'' ''notes.pdf''
             = Inr [(''alpha'', 1), (''beta'', 2), (''gamma'', 3)]"
    using extract_notes [of unsplittable_services]
    by (simp add: unsplittable_services_def demo_services_def)
  show ?thesis
    unfolding store_stages e
    by (simp add: unsplittable_services_def demo_services_def empty_world_def empty_batch_def
        get_embedding_def get_embeddings_client_def formatted_text_def record_call_def
        draw_uuid_def Let_def str_nat_digits)
qed

lemma extract_exe:
  "extract_text demo_services ''/tmp/upload.exe'' ''setup.exe''
     = Inl (ValueError ''Unsupported file type: exe'')"
  by (simp add: extract_text_def str_lower_def lower_char_def)

lemma extract_blank:
  "extract_text blank_services ''/tmp/upload.pdf'' ''scan.pdf'' = Inr []"
  by (simp add: extract_text_def extract_text_from_pdf_def str_lower_def lower_char_def
      str_strip_def isspace_def blank_services_def demo_services_def)

text \<open>
  C3. A failure of the extraction makes the ingestion raise that exception, and a
  document without extractable text makes it raise, both with the world untouched. If
  the splitter raises on some page, or if for some chunk of some page the embeddings
  client is missing, the provider raises or returns an empty batch, then the ingestion
  raises, the collection is what it was before, and the only calls made are calls to
  the embedding provider: \<open>add\<close> is not called. Whenever the ingestion raises, the
  collection is unchanged; if \<open>add\<close> was called at all, it was the last call and the
  collection refused the batch, which was empty or carried no time stamp. When the
  ingestion succeeds, the splitter succeeded on every page and every chunk of every
  page has been sent to the embedding provider, in extraction order, before the one
  \<open>add\<close> of the whole batch, which is the last call.
\<close>

theorem ingestion_all_or_nothing:
  "(extract_text env fp fn = Inl e0 \<longrightarrow>
      process_and_store_document env fp fn ts w = (Inl e0, w)) \<and>
   (extract_text env fp fn = Inr [] \<longrightarrow>
      process_and_store_document env fp fn ts w =
        (Inl (ValueError ''No text could be extracted from the document.''), w)) \<and>
   (extract_text env fp fn = Inr text_pages \<longrightarrow> (ptext, pg) \<in> set text_pages \<longrightarrow>
    (split_text env ptext = Inl e1 \<or>
     (split_text env ptext = Inr chunks \<and> c \<in> set chunks \<and>
      (get_embeddings_client env = Inl e1 \<or> feature_extraction env c = Inl e1 \<or>
       (feature_extraction env c = Inr a \<and> first_row a = Inl e1)))) \<longrightarrow>
      (\<exists>e'. fst (process_and_store_document env fp fn ts w) = Inl e') \<and>
      collection (snd (process_and_store_document env fp fn ts w)) = collection w \<and>
      (\<exists>fs. calls (snd (process_and_store_document env fp fn ts w)) = calls w @ fs \<and>
            (\<forall>x \<in> set fs. is_feature_extraction x))) \<and>
   (process_and_store_document env fp fn ts w = (Inl e, w') \<longrightarrow>
      collection w' = collection w \<and>
      (\<exists>fs. (\<forall>x \<in> set fs. is_feature_extraction x) \<and>
            (calls w' = calls w @ fs \<or>
             (\<exists>ids. calls w' = calls w @ fs @ [CollectionAdd ids] \<and>
                    (ids = [] \<or> ts = None))))) \<and>
   (process_and_store_document env fp fn ts w = (Inr res, w') \<longrightarrow>
      (\<exists>pages.
         extract_text env fp fn = Inr pages \<and>
         (\<forall>p \<in> set pages. \<exists>cs. split_text env (fst p) = Inr cs) \<and>
         length (new_rows w w') = length (extraction_order env pages) \<and>
         calls w' = calls w @ map FeatureExtraction (map fst (extraction_order env pages))
                      @ [CollectionAdd (map r_id (new_rows w w'))]))"
proof -
  have no_pages: "extract_text env fp fn = Inl e0 \<longrightarrow>
      process_and_store_document env fp fn ts w = (Inl e0, w)"
    by (simp add: store_stages)
  have no_text: "extract_text env fp fn = Inr [] \<longrightarrow>
      process_and_store_document env fp fn ts w =
        (Inl (ValueError ''No text could be extracted from the document.''), w)"
    by (simp add: store_stages)
  have stage: "extract_text env fp fn = Inr text_pages \<longrightarrow> (ptext, pg) \<in> set text_pages \<longrightarrow>
    (split_text env ptext = Inl e1 \<or>
     (split_text env ptext = Inr chunks \<and> c \<in> set chunks \<and>
      (get_embeddings_client env = Inl e1 \<or> feature_extraction env c = Inl e1 \<or>
       (feature_extraction env c = Inr a \<and> first_row a = Inl e1)))) \<longrightarrow>
      (\<exists>e'. fst (process_and_store_document env fp fn ts w) = Inl e') \<and>
      collection (snd (process_and_store_document env fp fn ts w)) = collection w \<and>
      (\<exists>fs. calls (snd (process_and_store_document env fp fn ts w)) = calls w @ fs \<and>
            (\<forall>x \<in> set fs. is_feature_extraction x))"
    by (intro impI) (rule store_stage_raises)
  have failed: "process_and_store_document env fp fn ts w = (Inl e, w') \<longrightarrow>
      collection w' = collection w \<and>
      (\<exists>fs. (\<forall>x \<in> set fs. is_feature_extraction x) \<and>
            (calls w' = calls w @ fs \<or>
             (\<exists>ids. calls w' = calls w @ fs @ [CollectionAdd ids] \<and>
                    (ids = [] \<or> ts = None))))"
    by (rule impI) (rule store_failure)
  have stored: "process_and_store_document env fp fn ts w = (Inr res, w') \<longrightarrow>
      (\<exists>pages.
         extract_text env fp fn = Inr pages \<and>
         (\<forall>p \<in> set pages. \<exists>cs. split_text env (fst p) = Inr cs) \<and>
         length (new_rows w w') = length (extraction_order env pages) \<and>
         calls w' = calls w @ map FeatureExtraction (map fst (extraction_order env pages))
                      @ [CollectionAdd (map r_id (new_rows w w'))])"
  proof
    assume up: "process_and_store_document env fp fn ts w = (Inr res, w')"
    from store_success [OF up] obtain pages where
      f: "extract_text env fp fn = Inr pages"
         "chunks_created res = length (extraction_order env pages)"
         "length (new_rows w w') = chunks_created res"
         "calls w' = calls w @ map FeatureExtraction (map fst (extraction_order env pages))
                        @ [CollectionAdd (map r_id (new_rows w w'))]"
      by (elim exE conjE) (rule that; assumption)
    have sp: "\<forall>p \<in> set pages. \<exists>cs. split_text env (fst p) = Inr cs"
      using stored_pages_split [OF up f(1)] by blast
    from f sp show "\<exists>pages.
           extract_text env fp fn = Inr pages \<and>
           (\<forall>p \<in> set pages. \<exists>cs. split_text env (fst p) = Inr cs) \<and>
           length (new_rows w w') = length (extraction_order env pages) \<and>
           calls w' = calls w @ map FeatureExtraction (map fst (extraction_order env pages))
                        @ [CollectionAdd (map r_id (new_rows w w'))]"
      by (intro exI [of _ pages]) simp
  qed
  show ?thesis
    by (rule conjI [OF no_pages conjI [OF no_text conjI [OF stage conjI [OF failed stored]]]])
qed


text \<open>
  The theorem at an unsupported file, at a PDF of blank pages, and at \<open>notes.pdf\<close>
  with the splitter failing on the second page, with the provider failing on the third
  page, and with the sample services: the collection stays empty in the four failing
  runs, and in the last the three embedding calls are followed by the one \<open>add\<close>.
\<close>

theorem ingestion_all_or_nothing_witness:
  "process_and_store_document demo_services ''/tmp/upload.exe'' ''setup.exe''
     (Some ''2024-05-01T10:00:00'') empty_world
   = (Inl (ValueError ''Unsupported file type: exe''), empty_world) \<and>
   process_and_store_document blank_services ''/tmp/upload.pdf'' ''scan.pdf''
     (Some ''2024-05-01T10:00:00'') empty_world
   = (Inl (ValueError ''No text could be extracted from the document.''), empty_world) \<and>
   split_text unsplittable_services ''beta'' = Inl (OtherError ''splitter failed'') \<and>
   process_and_store_document unsplittable_services ''/tmp/upload.pdf'' ''notes.pdf''
     (Some ''2024-05-01T10:00:00'') empty_world
   = (Inl (OtherError ''splitter failed''),
      \<lparr>collection = [], uuids_drawn = 2, calls = [FeatureExtraction ''alpha'']\<rparr>) \<and>
   feature_extraction failing_services ''gamma'' = Inl (OtherError ''503 Service Unavailable'') \<and>
   process_and_store_document failing_services ''/tmp/upload.pdf'' ''notes.pdf''
     (Some ''2024-05-01T10:00:00'') empty_world
   = (Inl (OtherError ''503 Service Unavailable''),
      \<lparr>collection = [], uuids_drawn = 3,
       calls = [FeatureExtraction ''alpha'', FeatureExtraction ''beta'',
                FeatureExtraction ''gamma'']\<rparr>) \<and>
   collection (snd (process_and_store_document unsplittable_services ''/tmp/upload.pdf''
                      ''notes.pdf'' (Some ''2024-05-01T10:00:00'') empty_world))
     = collection empty_world \<and>
   collection (snd (process_and_store_document failing_services ''/tmp/upload.pdf''
                      ''notes.pdf'' (Some ''2024-05-01T10:00:00'') empty_world))
     = collection empty_world \<and>
   process_and_store_document demo_services ''/tmp/upload.pdf'' ''notes.pdf''
     (Some ''2024-05-01T10:00:00'') empty_world
   = (Inr \<lparr>doc_id = ''uuid-0'', chunks_created = 3\<rparr>, notes_world) \<and>
   length (new_rows empty_world notes_world) = 3 \<and>
   calls notes_world =
     [FeatureExtraction ''alpha'', FeatureExtraction ''beta'', FeatureExtraction ''gamma'',
      CollectionAdd (map r_id (new_rows empty_world notes_world))]"
proof -
  let ?ts = "Some ''2024-05-01T10:00:00''"
  let ?pages = "[(''alpha'', 1), (''beta'', 2), (''gamma'', 3)] :: (string \<times> int) list"
  from ingestion_all_or_nothing [where env = demo_services and fp = "''/tmp/upload.exe''"
      and fn = "''setup.exe''" and ?e0.0 = "ValueError ''Unsupported file type: exe''"
      and ts = ?ts and w = empty_world] extract_exe
  have a: "process_and_store_document demo_services ''/tmp/upload.exe'' ''setup.exe'' ?ts
             empty_world = (Inl (ValueError ''Unsupported file type: exe''), empty_world)"
    by blast
  from ingestion_all_or_nothing [where env = blank_services and fp = "''/tmp/upload.pdf''"
      and fn = "''scan.pdf''" and ts = ?ts and w = empty_world] extract_blank
  have b: "process_and_store_document blank_services ''/tmp/upload.pdf'' ''scan.pdf'' ?ts
             empty_world
           = (Inl (ValueError ''No text could be extracted from the document.''), empty_world)"
    by blast
  have eu: "extract_text unsplittable_services ''/tmp/upload.pdf'' ''notes.pdf'' = Inr ?pages"
    using extract_notes [of unsplittable_services]
    by (simp add: unsplittable_services_def demo_services_def)
  have mu: "(''beta'', 2) \<in> set ?pages" by simp
  have su: "split_text unsplittable_services ''beta'' = Inl (OtherError ''splitter failed'')"
    by (simp add: unsplittable_services_def)
  from ingestion_all_or_nothing [where env = unsplittable_services
      and fp = "''/tmp/upload.pdf''" and fn = "''notes.pdf''" and ts = ?ts and w = empty_world
      and text_pages = ?pages and ptext = "''beta''" and pg = 2
      and ?e1.0 = "OtherError ''splitter failed''"] eu mu su
  have c: "collection (snd (process_and_store_document unsplittable_services
             ''/tmp/upload.pdf'' ''notes.pdf'' ?ts empty_world)) = collection empty_world"
    by blast
  have ef: "extract_text failing_services ''/tmp/upload.pdf'' ''notes.pdf'' = Inr ?pages"
    using extract_notes [of failing_services]
    by (simp add: failing_services_def demo_services_def)
  have mf: "(''gamma'', 3) \<in> set ?pages" by simp
  have sf: "split_text failing_services ''gamma'' = Inr [''gamma'']"
    by (simp add: failing_services_def demo_services_def)
  have cf: "''gamma'' \<in> set [''gamma'']" by simp
  have ff: "feature_extraction failing_services ''gamma''
              = Inl (OtherError ''503 Service Unavailable'')"
    by (simp add: failing_services_def)
  from ingestion_all_or_nothing [where env = failing_services
      and fp = "''/tmp/upload.pdf''" and fn = "''notes.pdf''" and ts = ?ts and w = empty_world
      and text_pages = ?pages and ptext = "''gamma''" and pg = 3
      and chunks = "[''gamma'']" and c = "''gamma''"
      and ?e1.0 = "OtherError ''503 Service Unavailable''"] ef mf sf cf ff
  have d: "collection (snd (process_and_store_document failing_services
             ''/tmp/upload.pdf'' ''notes.pdf'' ?ts empty_world)) = collection empty_world"
    by blast
  note s = store_notes
  from ingestion_all_or_nothing [where env = demo_services and fp = "''/tmp/upload.pdf''"
      and fn = "''notes.pdf''" and ts = ?ts and w = empty_world and w' = notes_world
      and res = "\<lparr>doc_id = ''uuid-0'', chunks_created = 3\<rparr>"] s
  obtain pages where
    p: "extract_text demo_services ''/tmp/upload.pdf'' ''notes.pdf'' = Inr pages"
       "length (new_rows empty_world notes_world) = length (extraction_order demo_services pages)"
       "calls notes_world = calls empty_world @
          map FeatureExtraction (map fst (extraction_order demo_services pages))
          @ [CollectionAdd (map r_id (new_rows empty_world notes_world))]"
    by blast
  have e: "extract_text demo_services ''/tmp/upload.pdf'' ''notes.pdf'' = Inr ?pages"
    using extract_notes [of demo_services] by (simp add: demo_services_def)
  from p(1) e have tp: "pages = ?pages" by simp
  have o: "extraction_order demo_services ?pages = ?pages"
    by (simp add: demo_services_def)
  from p(2,3) have g: "length (new_rows empty_world notes_world) = 3"
    "calls notes_world =
     [FeatureExtraction ''alpha'', FeatureExtraction ''beta'', FeatureExtraction ''gamma'',
      CollectionAdd (map r_id (new_rows empty_world notes_world))]"
    unfolding tp o by (simp_all add: empty_world_def)
  from a b su store_notes_unsplittable ff store_notes_failing c d s g
  show ?thesis by blast
qed

text \<open>
  C6. After a successful ingestion the collection is the former one followed by
  \<open>chunks_created\<close> new rows, whose \<open>chunk_id\<close> values are 0, 1, 2, ... up to
  \<open>chunks_created - 1\<close> in this order, all with the \<open>doc_id\<close> returned; their texts and
  page numbers are those of the chunks in extraction order, page by page and, within a
  page, in the order of the splitter.
\<close>

theorem chunk_index_contiguous:
  assumes "process_and_store_document env fp fn ts w = (Inr res, w')"
  shows "collection w' = collection w @ new_rows w w' \<and>
         length (new_rows w w') = chunks_created res \<and>
         map m_chunk_id (map r_metadata (new_rows w w')) =
           map (\<lambda>k. Some (int k)) [0 ..< chunks_created res] \<and>
         (\<forall>m \<in> set (map r_metadata (new_rows w w')). m_doc_id m = Some (doc_id res)) \<and>
         (\<exists>text_pages.
            extract_text env fp fn = Inr text_pages \<and>
            map r_document (new_rows w w') = map fst (extraction_order env text_pages) \<and>
            map m_page (map r_metadata (new_rows w w')) =
              map (\<lambda>cp. Some (snd cp)) (extraction_order env text_pages))"
proof -
  from store_success [OF assms] obtain text_pages where
    f: "extract_text env fp fn = Inr text_pages"
       "collection w' = collection w @ new_rows w w'"
       "length (new_rows w w') = chunks_created res"
       "map m_chunk_id (map r_metadata (new_rows w w')) =
             map (\<lambda>k. Some (int k)) [0 ..< chunks_created res]"
       "map m_page (map r_metadata (new_rows w w')) =
             map (\<lambda>cp. Some (snd cp)) (extraction_order env text_pages)"
       "map r_document (new_rows w w') = map fst (extraction_order env text_pages)"
       "\<forall>m \<in> set (map r_metadata (new_rows w w')).
              m_doc_id m = Some (doc_id res) \<and> m_file_name m = Some fn \<and>
              m_upload_timestamp m = ts"
    by (elim exE conjE) (rule that; assumption)
  show ?thesis
  proof (intro conjI)
    show "collection w' = collection w @ new_rows w w'" by (rule f(2))
    show "length (new_rows w w') = chunks_created res" by (rule f(3))
    show "map m_chunk_id (map r_metadata (new_rows w w')) =
           map (\<lambda>k. Some (int k)) [0 ..< chunks_created res]" by (rule f(4))
    show "\<forall>m \<in> set (map r_metadata (new_rows w w')). m_doc_id m = Some (doc_id res)"
      using f(7) by blast
    show "\<exists>text_pages.
            extract_text env fp fn = Inr text_pages \<and>
            map r_document (new_rows w w') = map fst (extraction_order env text_pages) \<and>
            map m_page (map r_metadata (new_rows w w')) =
              map (\<lambda>cp. Some (snd cp)) (extraction_order env text_pages)"
      using f(1,5,6) by (intro exI [of _ text_pages]) simp
  qed
qed

theorem chunk_index_contiguous_witness:
  "process_and_store_document demo_services ''/tmp/upload.pdf'' ''notes.pdf''
     (Some ''2024-05-01T10:00:00'') empty_world
   = (Inr \<lparr>doc_id = ''uuid-0'', chunks_created = 3\<rparr>, notes_world) \<and>
   new_rows empty_world notes_world = notes_rows \<and>
   map m_chunk_id (map r_metadata notes_rows) = [Some 0, Some 1, Some 2] \<and>
   map r_document notes_rows = [''alpha'', ''beta'', ''gamma''] \<and>
   map m_page (map r_metadata notes_rows) = [Some 1, Some 2, Some 3]"
proof -
  note s = store_notes
  have n: "new_rows empty_world notes_world = notes_rows"
    by (simp add: new_rows_def empty_world_def notes_world_def)
  have u: "[0 ..< chunks_created \<lparr>doc_id = ''uuid-0'', chunks_created = 3\<rparr>] = [0, 1, 2]"
    by (simp add: upt_rec)
  from chunk_index_contiguous [OF s]
  have "map m_chunk_id (map r_metadata (new_rows empty_world notes_world)) =
           map (\<lambda>k. Some (int k)) [0 ..< chunks_created \<lparr>doc_id = ''uuid-0'', chunks_created = 3\<rparr>]"
    by blast
  then have c: "map m_chunk_id (map r_metadata notes_rows) = [Some 0, Some 1, Some 2]"
    unfolding n u by simp
  have d: "map r_document notes_rows = [''alpha'', ''beta'', ''gamma'']"
    by (simp add: notes_rows_def)
  have p: "map m_page (map r_metadata notes_rows) = [Some 1, Some 2, Some 3]"
    by (simp add: notes_rows_def)
  from s n c d p show ?thesis by simp
qed

section \<open>Properties of the deletion\<close>

lemma collection_delete_nil: "collection_delete [] rows = rows"
  by (simp add: collection_delete_def)

lemma delete_chunks_result:
  "delete_document_chunks did w =
     (length (collection_get_where did (collection w)),
      (if collection_get_where did (collection w) = []
       then record_call (CollectionGet (Some did)) w
       else (record_call (CollectionDelete (map r_id (collection_get_where did (collection w))))
               (record_call (CollectionGet (Some did)) w))
             \<lparr>collection := collection_delete (map r_id (collection_get_where did (collection w)))
                              (collection w)\<rparr>))"
  by (simp add: delete_document_chunks_def Let_def record_call_def)

lemma delete_chunks_collection:
  "collection (snd (delete_document_chunks did w)) =
     collection_delete (map r_id (collection_get_where did (collection w))) (collection w)"
  by (simp add: delete_chunks_result record_call_def collection_delete_nil)

lemma delete_document_world:
  "snd (delete_document did w) = snd (delete_document_chunks did w)"
  by (simp add: delete_document_def split: prod.splits)

lemma delete_document_result:
  "fst (delete_document did w) =
     (if collection_get_where did (collection w) = [] then Inl not_found
      else Inr [(''message'',
                 JString (''Deleted '' @ str_nat (length (collection_get_where did (collection w)))
                          @ '' chunks for document '' @ did))])"
  by (simp add: delete_document_def delete_chunks_result not_found_def)

lemma deleted_none_left:
  "collection_get_where did
     (collection_delete (map r_id (collection_get_where did rows)) rows) = []"
  by (auto simp add: collection_get_where_def collection_delete_def filter_empty_conv)

lemma deleted_exactly:
  assumes "distinct (map r_id rows)"
  shows "collection_delete (map r_id (collection_get_where did rows)) rows
           = filter (\<lambda>r. m_doc_id (r_metadata r) \<noteq> Some did) rows"
proof -
  have "r_id r \<in> r_id ` {x \<in> set rows. m_doc_id (r_metadata x) = Some did}
          \<longleftrightarrow> m_doc_id (r_metadata r) = Some did" if "r \<in> set rows" for r
  proof
    assume "r_id r \<in> r_id ` {x \<in> set rows. m_doc_id (r_metadata x) = Some did}"
    then obtain x where x: "x \<in> set rows" "m_doc_id (r_metadata x) = Some did" "r_id x = r_id r"
      by auto
    from assms x(1) that x(3) have "x = r"
      by (meson distinct_map inj_on_def)
    with x(2) show "m_doc_id (r_metadata r) = Some did" by simp
  next
    assume "m_doc_id (r_metadata r) = Some did"
    with that show "r_id r \<in> r_id ` {x \<in> set rows. m_doc_id (r_metadata x) = Some did}"
      by auto
  qed
  then show ?thesis
    by (auto simp add: collection_delete_def collection_get_where_def intro!: filter_cong)
qed

lemma get_where_append:
  "collection_get_where did (xs @ ys) = collection_get_where did xs @ collection_get_where did ys"
  by (simp add: collection_get_where_def)

lemma get_where_all:
  "\<forall>m \<in> set (map r_metadata rows). m_doc_id m = Some did \<Longrightarrow> collection_get_where did rows = rows"
  by (simp add: collection_get_where_def)


lemma three_chunks:
  assumes "split_text env t1 = Inr [c1]" "split_text env t2 = Inr [c2]" "split_text env t3 = Inr [c3]"
  shows "extraction_order env [(t1, p1), (t2, p2), (t3, p3)] = [(c1, p1), (c2, p2), (c3, p3)]"
  using assms by simp

lemma round_trip:
  assumes ex: "extract_text env fp fn = Inr [(t1, p1), (t2, p2), (t3, p3)]"
      and s1: "split_text env t1 = Inr [c1]"
      and s2: "split_text env t2 = Inr [c2]"
      and s3: "split_text env t3 = Inr [c3]"
      and up: "process_and_store_document env fp fn ts w = (Inr res, w1)"
      and fresh: "collection_get_where (doc_id res) (collection w) = []"
      and d1: "delete_document (doc_id res) w1 = (r2, w2)"
      and d2: "delete_document (doc_id res) w2 = (r3, w3)"
  shows "chunks_created res = 3 \<and>
         r2 = Inr [(''message'', JString (''Deleted 3 chunks for document '' @ doc_id res))] \<and>
         r3 = Inl \<lparr>status_code = 404, detail = ''Document not found''\<rparr> \<and>
         collection w3 = collection w2"
proof -
  from store_success [OF up] obtain text_pages where
    f: "extract_text env fp fn = Inr text_pages"
       "chunks_created res = length (extraction_order env text_pages)"
       "collection w1 = collection w @ new_rows w w1"
       "length (new_rows w w1) = chunks_created res"
       "\<forall>m \<in> set (map r_metadata (new_rows w w1)).
              m_doc_id m = Some (doc_id res) \<and> m_file_name m = Some fn \<and>
              m_upload_timestamp m = ts"
    by (elim exE conjE) (rule that; assumption)
  from f(1) ex have tp: "text_pages = [(t1, p1), (t2, p2), (t3, p3)]" by simp
  have n: "chunks_created res = 3"
    unfolding f(2) tp three_chunks [OF s1 s2 s3] by simp
  from f(5) have "\<forall>m \<in> set (map r_metadata (new_rows w w1)). m_doc_id m = Some (doc_id res)"
    by blast
  then have "collection_get_where (doc_id res) (new_rows w w1) = new_rows w w1"
    by (rule get_where_all)
  with fresh f(3) have g: "collection_get_where (doc_id res) (collection w1) = new_rows w w1"
    by (simp add: get_where_append)
  with f(4) n have l: "length (collection_get_where (doc_id res) (collection w1)) = 3"
    and ne: "collection_get_where (doc_id res) (collection w1) \<noteq> []"
    by auto
  have three: "str_nat 3 = ''3''" by code_simp
  from d1 have "r2 = fst (delete_document (doc_id res) w1)" by simp
  then have r2: "r2 = Inr [(''message'', JString (''Deleted 3 chunks for document '' @ doc_id res))]"
    unfolding delete_document_result using ne by (simp add: l three)
  from d1 have "w2 = snd (delete_document (doc_id res) w1)" by simp
  then have "collection w2 = collection_delete
       (map r_id (collection_get_where (doc_id res) (collection w1))) (collection w1)"
    by (simp add: delete_document_world delete_chunks_collection)
  then have e: "collection_get_where (doc_id res) (collection w2) = []"
    by (simp add: deleted_none_left)
  from d2 have "r3 = fst (delete_document (doc_id res) w2)" by simp
  then have r3: "r3 = Inl \<lparr>status_code = 404, detail = ''Document not found''\<rparr>"
    unfolding delete_document_result using e by (simp add: not_found_def)
  from d2 have "w3 = snd (delete_document (doc_id res) w2)" by simp
  then have c: "collection w3 = collection w2"
    using e by (simp add: delete_document_world delete_chunks_collection collection_delete_nil)
  from n r2 r3 c show ?thesis by simp
qed

text \<open>
  C4, as the code has it. Deleting a \<open>doc_id\<close> of which the collection holds chunks
  answers with a JSON object whose only field is \<open>message\<close>; the text of the message
  contains the number of chunks found. Deleting a \<open>doc_id\<close> with no chunk raises the
  404 \<open>Document not found\<close> and leaves the collection unchanged. After a deletion no
  chunk of the \<open>doc_id\<close> is left, and where row identifiers are unique exactly the rows
  of the \<open>doc_id\<close> are removed. Round trip: a document of three pages, one chunk each,
  is ingested with \<open>chunks_created = 3\<close> under a \<open>doc_id\<close> not in use before; deleting
  it answers \<open>Deleted 3 chunks for document ...\<close>, and deleting it again raises the 404
  and changes nothing.
\<close>

theorem delete_round_trip:
  "fst (delete_document did w) =
     (if collection_get_where did (collection w) = []
      then Inl \<lparr>status_code = 404, detail = ''Document not found''\<rparr>
      else Inr [(''message'',
                 JString (''Deleted '' @ str_nat (length (collection_get_where did (collection w)))
                          @ '' chunks for document '' @ did))]) \<and>
   collection_get_where did (collection (snd (delete_document did w))) = [] \<and>
   (collection_get_where did (collection w) = [] \<longrightarrow>
      collection (snd (delete_document did w)) = collection w) \<and>
   (distinct (map r_id (collection w)) \<longrightarrow>
      collection (snd (delete_document did w)) =
        filter (\<lambda>r. m_doc_id (r_metadata r) \<noteq> Some did) (collection w)) \<and>
   (extract_text env fp fn = Inr [(t1, p1), (t2, p2), (t3, p3)] \<longrightarrow>
    split_text env t1 = Inr [c1] \<longrightarrow> split_text env t2 = Inr [c2] \<longrightarrow>
    split_text env t3 = Inr [c3] \<longrightarrow>
    process_and_store_document env fp fn ts w0 = (Inr res, w1) \<longrightarrow>
    collection_get_where (doc_id res) (collection w0) = [] \<longrightarrow>
    delete_document (doc_id res) w1 = (r2, w2) \<longrightarrow>
    delete_document (doc_id res) w2 = (r3, w3) \<longrightarrow>
      chunks_created res = 3 \<and>
      r2 = Inr [(''message'', JString (''Deleted 3 chunks for document '' @ doc_id res))] \<and>
      r3 = Inl \<lparr>status_code = 404, detail = ''Document not found''\<rparr> \<and>
      collection w3 = collection w2)"
proof -
  have a: "fst (delete_document did w) =
     (if collection_get_where did (collection w) = []
      then Inl \<lparr>status_code = 404, detail = ''Document not found''\<rparr>
      else Inr [(''message'',
                 JString (''Deleted '' @ str_nat (length (collection_get_where did (collection w)))
                          @ '' chunks for document '' @ did))])"
    by (simp add: delete_document_result not_found_def)
  have b: "collection_get_where did (collection (snd (delete_document did w))) = []"
    by (simp add: delete_document_world delete_chunks_collection deleted_none_left)
  have c: "collection_get_where did (collection w) = [] \<longrightarrow>
      collection (snd (delete_document did w)) = collection w"
    by (simp add: delete_document_world delete_chunks_collection collection_delete_nil)
  have d: "distinct (map r_id (collection w)) \<longrightarrow>
      collection (snd (delete_document did w)) =
        filter (\<lambda>r. m_doc_id (r_metadata r) \<noteq> Some did) (collection w)"
    by (simp add: delete_document_world delete_chunks_collection deleted_exactly)
  have e: "extract_text env fp fn = Inr [(t1, p1), (t2, p2), (t3, p3)] \<longrightarrow>
    split_text env t1 = Inr [c1] \<longrightarrow> split_text env t2 = Inr [c2] \<longrightarrow>
    split_text env t3 = Inr [c3] \<longrightarrow>
    process_and_store_document env fp fn ts w0 = (Inr res, w1) \<longrightarrow>
    collection_get_where (doc_id res) (collection w0) = [] \<longrightarrow>
    delete_document (doc_id res) w1 = (r2, w2) \<longrightarrow>
    delete_document (doc_id res) w2 = (r3, w3) \<longrightarrow>
      chunks_created res = 3 \<and>
      r2 = Inr [(''message'', JString (''Deleted 3 chunks for document '' @ doc_id res))] \<and>
      r3 = Inl \<lparr>status_code = 404, detail = ''Document not found''\<rparr> \<and>
      collection w3 = collection w2"
    by (intro impI) (rule round_trip)
  show ?thesis by (rule conjI [OF a conjI [OF b conjI [OF c conjI [OF d e]]]])
qed

lemma delete_notes:
  "delete_document ''uuid-0'' notes_world =
     (Inr [(''message'', JString ''Deleted 3 chunks for document uuid-0'')], emptied_world)"
  by (simp add: delete_document_def delete_document_chunks_def collection_get_where_def
      collection_delete_def notes_world_def notes_rows_def record_call_def Let_def
      emptied_world_def str_nat_digits)

lemma delete_notes_again:
  "delete_document ''uuid-0'' emptied_world =
     (Inl \<lparr>status_code = 404, detail = ''Document not found''\<rparr>,
      record_call (CollectionGet (Some ''uuid-0'')) emptied_world)"
  by (simp add: delete_document_def delete_document_chunks_def collection_get_where_def
      emptied_world_def record_call_def Let_def)

text \<open>The theorem at \<open>notes.pdf\<close>, ingested by the sample services into the empty world.\<close>

theorem delete_round_trip_witness:
  "process_and_store_document demo_services ''/tmp/upload.pdf'' ''notes.pdf''
     (Some ''2024-05-01T10:00:00'') empty_world
   = (Inr \<lparr>doc_id = ''uuid-0'', chunks_created = 3\<rparr>, notes_world) \<and>
   distinct (map r_id (collection notes_world)) \<and>
   delete_document ''uuid-0'' notes_world =
     (Inr [(''message'', JString ''Deleted 3 chunks for document uuid-0'')], emptied_world) \<and>
   collection emptied_world =
     filter (\<lambda>r. m_doc_id (r_metadata r) \<noteq> Some ''uuid-0'') (collection notes_world) \<and>
   collection_get_where ''uuid-0'' (collection emptied_world) = [] \<and>
   delete_document ''uuid-0'' emptied_world =
     (Inl \<lparr>status_code = 404, detail = ''Document not found''\<rparr>,
      record_call (CollectionGet (Some ''uuid-0'')) emptied_world) \<and>
   collection (record_call (CollectionGet (Some ''uuid-0'')) emptied_world) = collection emptied_world"
proof -
  let ?res = "\<lparr>doc_id = ''uuid-0'', chunks_created = 3\<rparr>"
  let ?w3 = "record_call (CollectionGet (Some ''uuid-0'')) emptied_world"
  have ex: "extract_text demo_services ''/tmp/upload.pdf'' ''notes.pdf''
             = Inr [(''alpha'', 1), (''beta'', 2), (''gamma'', 3)]"
    using extract_notes [of demo_services] by (simp add: demo_services_def)
  have sp: "split_text demo_services t = Inr [t]" for t by (simp add: demo_services_def)
  note up = store_notes
  have fresh: "collection_get_where (doc_id ?res) (collection empty_world) = []"
    by (simp add: collection_get_where_def empty_world_def)
  have d1: "delete_document (doc_id ?res) notes_world =
     (Inr [(''message'', JString ''Deleted 3 chunks for document uuid-0'')], emptied_world)"
    using delete_notes by simp
  have d2: "delete_document (doc_id ?res) emptied_world =
     (Inl \<lparr>status_code = 404, detail = ''Document not found''\<rparr>, ?w3)"
    using delete_notes_again by simp
  have dist: "distinct (map r_id (collection notes_world))"
    by (simp add: notes_world_def notes_rows_def)
  note t = delete_round_trip [of "''uuid-0''" notes_world demo_services "''/tmp/upload.pdf''"
      "''notes.pdf''" "''alpha''" 1 "''beta''" 2 "''gamma''" 3 "''alpha''" "''beta''" "''gamma''"
      "Some ''2024-05-01T10:00:00''" empty_world ?res notes_world
      "Inr [(''message'', JString ''Deleted 3 chunks for document uuid-0'')]" emptied_world
      "Inl \<lparr>status_code = 404, detail = ''Document not found''\<rparr>" ?w3]
  from t dist have a: "collection (snd (delete_document ''uuid-0'' notes_world)) =
        filter (\<lambda>r. m_doc_id (r_metadata r) \<noteq> Some ''uuid-0'') (collection notes_world)"
    by blast
  from t have b: "collection_get_where ''uuid-0''
        (collection (snd (delete_document ''uuid-0'' notes_world))) = []"
    by blast
  from t ex sp up fresh d1 d2 have c: "collection ?w3 = collection emptied_world"
    by blast
  from a b have a': "collection emptied_world =
        filter (\<lambda>r. m_doc_id (r_metadata r) \<noteq> Some ''uuid-0'') (collection notes_world)"
    and b': "collection_get_where ''uuid-0'' (collection emptied_world) = []"
    by (simp_all only: delete_notes snd_conv)
  from up dist delete_notes a' b' delete_notes_again c show ?thesis by blast
qed

text \<open>
  C4 as the specification words it fails: the response to deleting the three chunks of
  \<open>notes.pdf\<close> has no \<open>deleted_count\<close> field.
\<close>

theorem delete_round_trip_counterexample:
  "snd (process_and_store_document demo_services ''/tmp/upload.pdf'' ''notes.pdf''
          (Some ''2024-05-01T10:00:00'') empty_world) = notes_world \<and>
   fst (delete_document ''uuid-0'' notes_world) =
     Inr [(''message'', JString ''Deleted 3 chunks for document uuid-0'')] \<and>
   \<not> spec_delete_response [(''message'', JString ''Deleted 3 chunks for document uuid-0'')] 3"
  by (simp add: store_notes delete_notes spec_delete_response_def)

section \<open>Properties of the document listing\<close>

lemma set_first_seen [simp]: "set (first_seen xs) = set xs"
  by (induction xs) auto

lemma distinct_first_seen [simp]: "distinct (first_seen xs)"
  by (induction xs) auto

lemma first_seen_snoc:
  "first_seen (xs @ [x]) = (if x \<in> set xs then first_seen xs else first_seen xs @ [x])"
  by (induction xs) auto

lemma filter_first_seen:
  "filter (\<lambda>y. y \<noteq> a) (first_seen xs) = first_seen (filter (\<lambda>y. y \<noteq> a) xs)"
proof (induction xs)
  case Nil
  then show ?case by simp
next
  case (Cons x xs)
  have "filter (\<lambda>y. y \<noteq> a) (filter (\<lambda>y. y \<noteq> x) (first_seen xs))
          = filter (\<lambda>y. y \<noteq> x) (filter (\<lambda>y. y \<noteq> a) (first_seen xs))"
    by (simp add: conj_commute)
  with Cons show ?case by simp
qed

lemma first_seen_constant:
  "xs \<noteq> [] \<Longrightarrow> set xs = {a} \<Longrightarrow> first_seen xs = [a]"
proof (cases xs)
  case Nil
  then show "xs \<noteq> [] \<Longrightarrow> first_seen xs = [a]" by simp
next
  case (Cons x xs')
  assume s: "set xs = {a}"
  with Cons have x: "x = a" and r: "set xs' \<subseteq> {a}" by auto
  from r have "filter (\<lambda>y. y \<noteq> a) xs' = []" by (auto simp add: filter_empty_conv)
  with Cons x show "first_seen xs = [a]" by (simp add: filter_first_seen)
qed

lemma first_seen_two_blocks:
  assumes "xs \<noteq> []" "ys \<noteq> []" "set xs = {a}" "set ys = {b}" "a \<noteq> b"
  shows "first_seen (xs @ ys) = [a, b]"
proof -
  from assms(1,3) obtain xs' where xs: "xs = a # xs'" and r: "set xs' \<subseteq> {a}"
    by (cases xs) auto
  from r have fx: "filter (\<lambda>y. y \<noteq> a) xs' = []" by (auto simp add: filter_empty_conv)
  from assms(4,5) have fy: "filter (\<lambda>y. y \<noteq> a) ys = ys" by (auto simp add: filter_id_conv)
  have "first_seen (xs @ ys) = a # first_seen (filter (\<lambda>y. y \<noteq> a) (xs' @ ys))"
    by (simp add: xs filter_first_seen)
  also have "\<dots> = a # first_seen ys" by (simp add: fx fy)
  also have "\<dots> = [a, b]" using first_seen_constant [OF assms(2,4)] by simp
  finally show ?thesis .
qed

lemma dict_modify_map:
  "distinct ks \<Longrightarrow>
   dict_modify k f (map (\<lambda>j. (j, g j)) ks) = map (\<lambda>j. (j, if j = k then f (g j) else g j)) ks"
  by (induction ks) auto

lemma dict_modify_last:
  "k \<notin> set ks \<Longrightarrow>
   dict_modify k f (map (\<lambda>j. (j, g j)) ks @ [(k, v)]) = map (\<lambda>j. (j, g j)) ks @ [(k, f v)]"
  by (induction ks) auto

lemma set_document_ids:
  "set (document_ids mds) = {d \<in> chunk_doc_id ` set mds. d \<noteq> []}"
  by (auto simp add: document_ids_def)

lemma document_ids_snoc:
  "document_ids (mds @ [md]) =
     (if chunk_doc_id md = [] \<or> chunk_doc_id md \<in> chunk_doc_id ` set mds
      then document_ids mds else document_ids mds @ [chunk_doc_id md])"
  by (auto simp add: document_ids_def first_seen_snoc)

lemma summary_other:
  "k \<noteq> chunk_doc_id md \<Longrightarrow> summary k (mds @ [md]) = summary k mds"
  by (simp add: summary_def group_of_def)

lemma earliest_snoc:
  "earliest (g @ [md]) =
     (if chunk_timestamp md \<noteq> [] \<and>
         (earliest g = [] \<or> chunk_timestamp md < earliest g)
      then chunk_timestamp md else earliest g)"
proof (cases "chunk_timestamp md = []")
  case True
  then show ?thesis by (simp add: earliest_def)
next
  case False
  let ?T = "filter (\<lambda>t. t \<noteq> []) (map chunk_timestamp g)"
  show ?thesis
  proof (cases "?T = []")
    case True
    with False show ?thesis by (simp add: earliest_def)
  next
    case ne: False
    then have ne': "set ?T \<noteq> {}" by (simp only: set_empty not_False_eq_True)
    have fin: "finite (set ?T)" by (rule finite_set)
    from fin ne' have "Min (set ?T) \<in> set ?T" by (rule Min_in)
    then have cur: "Min (set ?T) \<noteq> []" by auto
    have app: "set (?T @ [chunk_timestamp md]) = insert (chunk_timestamp md) (set ?T)"
      by (simp only: set_append list.set Un_insert_right Un_empty_right)
    have m: "Min (set (?T @ [chunk_timestamp md])) = min (chunk_timestamp md) (Min (set ?T))"
      unfolding app by (rule Min_insert [OF fin ne'])
    have e1: "earliest g = Min (set ?T)" using ne by (simp only: earliest_def Let_def if_False)
    have f: "filter (\<lambda>t. t \<noteq> []) (map chunk_timestamp (g @ [md])) = ?T @ [chunk_timestamp md]"
      using False by simp
    have e2: "earliest (g @ [md]) = Min (set (?T @ [chunk_timestamp md]))"
      unfolding earliest_def Let_def f by simp
    show ?thesis
      unfolding e2 m e1 using False cur by (auto simp add: min_def)
  qed
qed

lemma summary_first:
  assumes "chunk_doc_id md \<notin> chunk_doc_id ` set mds"
  shows "count_chunk (chunk_timestamp md)
           \<lparr>d_doc_id = chunk_doc_id md, d_file_name = chunk_file_name md, d_chunks_count = 0,
            d_upload_timestamp = chunk_timestamp md\<rparr>
         = summary (chunk_doc_id md) (mds @ [md])"
proof -
  have "chunk_doc_id x \<noteq> chunk_doc_id md" if "x \<in> set mds" for x
    using assms that by (metis image_eqI)
  then have "group_of (chunk_doc_id md) mds = []"
    by (simp add: group_of_def filter_empty_conv)
  then have g: "group_of (chunk_doc_id md) (mds @ [md]) = [md]"
    by (simp add: group_of_def)
  show ?thesis
    by (simp add: summary_def g count_chunk_def earliest_def Let_def)
qed

lemma summary_next:
  assumes "chunk_doc_id md \<in> chunk_doc_id ` set mds"
  shows "count_chunk (chunk_timestamp md) (summary (chunk_doc_id md) mds)
         = summary (chunk_doc_id md) (mds @ [md])"
proof -
  let ?g = "group_of (chunk_doc_id md) mds"
  from assms have ne: "?g \<noteq> []"
    by (auto simp add: group_of_def filter_empty_conv)
  have g: "group_of (chunk_doc_id md) (mds @ [md]) = ?g @ [md]"
    by (simp add: group_of_def)
  show ?thesis
    unfolding summary_def g
    using ne by (simp add: count_chunk_def earliest_snoc Let_def)
qed

lemma group_chunk_step:
  "group_chunk (map (\<lambda>k. (k, summary k mds)) (document_ids mds)) md
     = map (\<lambda>k. (k, summary k (mds @ [md]))) (document_ids (mds @ [md]))"
proof -
  let ?m = "map (\<lambda>k. (k, summary k mds)) (document_ids mds)"
  let ?d = "chunk_doc_id md"
  have keys: "fst ` set ?m = set (document_ids mds)" by (auto simp add: image_image)
  have dist: "distinct (document_ids mds)" by (simp add: document_ids_def)
  show ?thesis
  proof (cases "?d = []")
    case True
    then have "?d \<notin> set (document_ids mds)" by (simp add: set_document_ids)
    with True keys have "group_chunk ?m md = ?m"
      by (simp add: group_chunk_def Let_def chunk_doc_id_def)
    moreover have "summary k (mds @ [md]) = summary k mds" if "k \<in> set (document_ids mds)" for k
      using that True by (intro summary_other) (auto simp add: set_document_ids)
    ultimately show ?thesis using True by (simp add: document_ids_snoc)
  next
    case ne: False
    show ?thesis
    proof (cases "?d \<in> chunk_doc_id ` set mds")
      case True
      with ne have mem: "?d \<in> set (document_ids mds)" by (simp add: set_document_ids)
      with keys have "group_chunk ?m md = dict_modify ?d (count_chunk (chunk_timestamp md)) ?m"
        by (simp add: group_chunk_def Let_def chunk_doc_id_def chunk_timestamp_def)
      also have "\<dots> = map (\<lambda>j. (j, if j = ?d then count_chunk (chunk_timestamp md) (summary j mds)
                                      else summary j mds)) (document_ids mds)"
        using dist by (rule dict_modify_map)
      also have "\<dots> = map (\<lambda>k. (k, summary k (mds @ [md]))) (document_ids mds)"
        using summary_next [OF True] by (auto simp add: summary_other)
      finally show ?thesis using True by (simp add: document_ids_snoc)
    next
      case False
      with ne have nmem: "?d \<notin> set (document_ids mds)" by (simp add: set_document_ids)
      let ?e0 = "\<lparr>d_doc_id = ?d, d_file_name = chunk_file_name md, d_chunks_count = 0,
                  d_upload_timestamp = chunk_timestamp md\<rparr>"
      from nmem keys ne
      have s1: "group_chunk ?m md
                  = dict_modify ?d (count_chunk (chunk_timestamp md)) (?m @ [(?d, ?e0)])"
        by (simp add: group_chunk_def Let_def chunk_doc_id_def chunk_timestamp_def
            chunk_file_name_def)
      have s2: "dict_modify ?d (count_chunk (chunk_timestamp md)) (?m @ [(?d, ?e0)])
                  = ?m @ [(?d, count_chunk (chunk_timestamp md) ?e0)]"
        using nmem by (rule dict_modify_last)
      have s3: "count_chunk (chunk_timestamp md) ?e0 = summary ?d (mds @ [md])"
        by (rule summary_first [OF False])
      have s4: "?m = map (\<lambda>k. (k, summary k (mds @ [md]))) (document_ids mds)"
      proof -
        have "summary k (mds @ [md]) = summary k mds" if "k \<in> set (document_ids mds)" for k
          using that nmem by (intro summary_other) auto
        then show ?thesis by simp
      qed
      have s5: "document_ids (mds @ [md]) = document_ids mds @ [?d]"
        using False ne by (simp add: document_ids_snoc)
      have "group_chunk ?m md = ?m @ [(?d, summary ?d (mds @ [md]))]"
        by (simp only: s1 s2 s3)
      also have "\<dots> = map (\<lambda>k. (k, summary k (mds @ [md]))) (document_ids mds)
                        @ [(?d, summary ?d (mds @ [md]))]"
        using s4 by simp
      also have "\<dots> = map (\<lambda>k. (k, summary k (mds @ [md]))) (document_ids (mds @ [md]))"
        by (simp add: s5)
      finally show ?thesis .
    qed
  qed
qed

lemma foldl_group_chunk:
  "foldl group_chunk [] mds = map (\<lambda>k. (k, summary k mds)) (document_ids mds)"
proof (induction mds rule: rev_induct)
  case Nil
  then show ?case by (simp add: document_ids_def)
next
  case (snoc md mds)
  then show ?case by (simp add: group_chunk_step)
qed

lemma get_all_documents_summary:
  "fst (get_all_documents w) =
     sort_key d_file_name
       (map (\<lambda>k. summary k (map r_metadata (collection w)))
            (document_ids (map r_metadata (collection w))))"
  by (simp add: get_all_documents_def Let_def record_call_def foldl_group_chunk comp_def
      document_ids_def)


lemma summary_id [simp]: "d_doc_id (summary k mds) = k"
  by (simp add: summary_def)

lemma uniform_group:
  assumes ne: "ms \<noteq> []"
      and u: "\<forall>m \<in> set ms. m_doc_id m = Some d \<and> m_file_name m = Some fn \<and>
                              m_upload_timestamp m = ts"
  shows "chunk_file_name (hd ms) = fn \<and> earliest ms = dict_get ts [] \<and>
         set (map chunk_doc_id ms) = {d} \<and> map chunk_doc_id ms \<noteq> []"
proof -
  from ne u have h: "chunk_file_name (hd ms) = fn"
    by (cases ms) (simp_all add: chunk_file_name_def dict_get_def)
  from u have t: "map chunk_timestamp ms = replicate (length ms) (dict_get ts [])"
    by (simp add: chunk_timestamp_def map_replicate_const [symmetric] cong: map_cong)
  have e: "earliest ms = dict_get ts []"
  proof (cases "dict_get ts [] = []")
    case True
    then show ?thesis by (simp add: earliest_def t)
  next
    case False
    with ne show ?thesis by (simp add: earliest_def t)
  qed
  from u have "map chunk_doc_id ms = replicate (length ms) d"
    by (simp add: chunk_doc_id_def dict_get_def map_replicate_const [symmetric] cong: map_cong)
  with ne have s: "set (map chunk_doc_id ms) = {d}" "map chunk_doc_id ms \<noteq> []"
    by simp_all
  from h e s show ?thesis by simp
qed

lemma two_documents:
  assumes ne1: "ms1 \<noteq> []" and ne2: "ms2 \<noteq> []"
      and u1: "\<forall>m \<in> set ms1. m_doc_id m = Some d1 \<and> m_file_name m = Some fn1 \<and>
                              m_upload_timestamp m = ts1"
      and u2: "\<forall>m \<in> set ms2. m_doc_id m = Some d2 \<and> m_file_name m = Some fn2 \<and>
                              m_upload_timestamp m = ts2"
      and d: "d1 \<noteq> []" "d2 \<noteq> []" "d1 \<noteq> d2"
  shows "map (\<lambda>k. summary k (ms1 @ ms2)) (document_ids (ms1 @ ms2)) =
           [\<lparr>d_doc_id = d1, d_file_name = fn1, d_chunks_count = length ms1,
             d_upload_timestamp = dict_get ts1 []\<rparr>,
            \<lparr>d_doc_id = d2, d_file_name = fn2, d_chunks_count = length ms2,
             d_upload_timestamp = dict_get ts2 []\<rparr>]"
proof -
  note g1 = uniform_group [OF ne1 u1] and g2 = uniform_group [OF ne2 u2]
  from g1 have a1: "\<forall>x \<in> set (map chunk_doc_id ms1). x = d1" by blast
  from g2 have a2: "\<forall>x \<in> set (map chunk_doc_id ms2). x = d2" by blast
  from a1 a2 d have f: "filter (\<lambda>x. x \<noteq> []) (map chunk_doc_id (ms1 @ ms2))
                        = map chunk_doc_id ms1 @ map chunk_doc_id ms2"
    by (auto simp add: filter_id_conv)
  have ids: "document_ids (ms1 @ ms2) = [d1, d2]"
    unfolding document_ids_def f
    using g1 g2 d(3) by (intro first_seen_two_blocks) simp_all
  from a1 a2 d(3) have gr1: "group_of d1 (ms1 @ ms2) = ms1"
    by (auto simp add: group_of_def filter_id_conv filter_empty_conv)
  from a1 a2 d(3) have gr2: "group_of d2 (ms1 @ ms2) = ms2"
    by (auto simp add: group_of_def filter_id_conv filter_empty_conv)
  show ?thesis
    using g1 g2 by (simp add: ids summary_def gr1 gr2)
qed

lemma two_uploads:
  assumes c0: "collection w0 = []"
      and up1: "process_and_store_document env fp1 fn1 ts1 w0 = (Inr res1, w1)"
      and up2: "process_and_store_document env fp2 fn2 ts2 w1 = (Inr res2, w2)"
      and d: "doc_id res1 \<noteq> []" "doc_id res2 \<noteq> []" "doc_id res1 \<noteq> doc_id res2"
  shows "fst (get_all_documents w2) =
           (let e1 = \<lparr>d_doc_id = doc_id res1, d_file_name = fn1,
                      d_chunks_count = chunks_created res1,
                      d_upload_timestamp = dict_get ts1 []\<rparr>;
                e2 = \<lparr>d_doc_id = doc_id res2, d_file_name = fn2,
                      d_chunks_count = chunks_created res2,
                      d_upload_timestamp = dict_get ts2 []\<rparr>
            in if fn1 \<le> fn2 then [e1, e2] else [e2, e1])"
proof -
  from store_success [OF up1] obtain tp1 where
    s1: "0 < chunks_created res1" "collection w1 = collection w0 @ new_rows w0 w1"
        "length (new_rows w0 w1) = chunks_created res1"
        "\<forall>m \<in> set (map r_metadata (new_rows w0 w1)).
              m_doc_id m = Some (doc_id res1) \<and> m_file_name m = Some fn1 \<and>
              m_upload_timestamp m = ts1"
    by (elim exE conjE) (rule that; assumption)
  from store_success [OF up2] obtain tp2 where
    s2: "0 < chunks_created res2" "collection w2 = collection w1 @ new_rows w1 w2"
        "length (new_rows w1 w2) = chunks_created res2"
        "\<forall>m \<in> set (map r_metadata (new_rows w1 w2)).
              m_doc_id m = Some (doc_id res2) \<and> m_file_name m = Some fn2 \<and>
              m_upload_timestamp m = ts2"
    by (elim exE conjE) (rule that; assumption)
  let ?ms1 = "map r_metadata (new_rows w0 w1)"
  let ?ms2 = "map r_metadata (new_rows w1 w2)"
  from s1(1,3) have ne1: "?ms1 \<noteq> []" by auto
  from s2(1,3) have ne2: "?ms2 \<noteq> []" by auto
  have mds: "map r_metadata (collection w2) = ?ms1 @ ?ms2"
    by (simp add: s2(2) s1(2) c0)
  have l: "length ?ms1 = chunks_created res1" "length ?ms2 = chunks_created res2"
    using s1(3) s2(3) by simp_all
  note t = two_documents [OF ne1 ne2 s1(4) s2(4) d]
  show ?thesis
    unfolding get_all_documents_summary mds t l by (simp add: Let_def)
qed

text \<open>
  C9. The listing has exactly one entry for every \<open>doc_id\<close> that some stored chunk
  carries (a chunk without \<open>doc_id\<close>, read as the empty text, belongs to no document).
  The \<open>chunks_count\<close> of an entry is the number of stored chunks with its \<open>doc_id\<close>,
  its \<open>upload_timestamp\<close> is the smallest time stamp among them, and the entries are
  sorted by file name. After two successful ingestions into an empty collection, under
  two different \<open>doc_id\<close>s, the listing has exactly two entries: the one of the smaller
  file name first, each with the file name, the number of chunks created and the time
  stamp of its ingestion.
\<close>

theorem document_catalog:
  "distinct (map d_doc_id (fst (get_all_documents w))) \<and>
   set (map d_doc_id (fst (get_all_documents w))) =
     {d \<in> chunk_doc_id ` set (map r_metadata (collection w)). d \<noteq> []} \<and>
   (\<forall>e \<in> set (fst (get_all_documents w)).
      d_chunks_count e =
        length (filter (\<lambda>m. chunk_doc_id m = d_doc_id e) (map r_metadata (collection w))) \<and>
      d_upload_timestamp e =
        earliest (filter (\<lambda>m. chunk_doc_id m = d_doc_id e) (map r_metadata (collection w)))) \<and>
   sorted (map d_file_name (fst (get_all_documents w))) \<and>
   (collection w0 = [] \<longrightarrow>
    process_and_store_document env fp1 fn1 ts1 w0 = (Inr res1, w1) \<longrightarrow>
    process_and_store_document env fp2 fn2 ts2 w1 = (Inr res2, w2) \<longrightarrow>
    doc_id res1 \<noteq> [] \<longrightarrow> doc_id res2 \<noteq> [] \<longrightarrow> doc_id res1 \<noteq> doc_id res2 \<longrightarrow>
      length (fst (get_all_documents w2)) = 2 \<and>
      fst (get_all_documents w2) =
        (let e1 = \<lparr>d_doc_id = doc_id res1, d_file_name = fn1,
                   d_chunks_count = chunks_created res1,
                   d_upload_timestamp = dict_get ts1 []\<rparr>;
             e2 = \<lparr>d_doc_id = doc_id res2, d_file_name = fn2,
                   d_chunks_count = chunks_created res2,
                   d_upload_timestamp = dict_get ts2 []\<rparr>
         in if fn1 \<le> fn2 then [e1, e2] else [e2, e1]))"
proof -
  let ?mds = "map r_metadata (collection w)"
  let ?entries = "map (\<lambda>k. summary k ?mds) (document_ids ?mds)"
  have docs: "fst (get_all_documents w) = sort_key d_file_name ?entries"
    by (rule get_all_documents_summary)
  have ids: "map d_doc_id ?entries = document_ids ?mds"
    by (simp add: comp_def)
  have "distinct (map d_doc_id ?entries)"
    unfolding ids by (simp add: document_ids_def)
  then have "distinct (map d_doc_id (sort_key d_file_name ?entries))"
    by (simp only: distinct_map set_sort distinct_sort)
  then have a: "distinct (map d_doc_id (fst (get_all_documents w)))"
    by (simp only: docs)
  have "set (map d_doc_id (sort_key d_file_name ?entries)) = set (map d_doc_id ?entries)"
    by (simp only: set_map set_sort)
  then have b: "set (map d_doc_id (fst (get_all_documents w))) =
     {d \<in> chunk_doc_id ` set ?mds. d \<noteq> []}"
    by (simp only: docs ids set_document_ids)
  have c: "\<forall>e \<in> set (fst (get_all_documents w)).
      d_chunks_count e = length (filter (\<lambda>m. chunk_doc_id m = d_doc_id e) ?mds) \<and>
      d_upload_timestamp e = earliest (filter (\<lambda>m. chunk_doc_id m = d_doc_id e) ?mds)"
  proof
    fix e assume "e \<in> set (fst (get_all_documents w))"
    then have "e \<in> set ?entries" by (simp only: docs set_sort)
    then obtain k where "e = summary k ?mds" by auto
    then show "d_chunks_count e = length (filter (\<lambda>m. chunk_doc_id m = d_doc_id e) ?mds) \<and>
      d_upload_timestamp e = earliest (filter (\<lambda>m. chunk_doc_id m = d_doc_id e) ?mds)"
      by (simp add: summary_def group_of_def)
  qed
  have d: "sorted (map d_file_name (fst (get_all_documents w)))"
    by (simp only: docs sorted_sort_key)
  have e: "collection w0 = [] \<longrightarrow>
    process_and_store_document env fp1 fn1 ts1 w0 = (Inr res1, w1) \<longrightarrow>
    process_and_store_document env fp2 fn2 ts2 w1 = (Inr res2, w2) \<longrightarrow>
    doc_id res1 \<noteq> [] \<longrightarrow> doc_id res2 \<noteq> [] \<longrightarrow> doc_id res1 \<noteq> doc_id res2 \<longrightarrow>
      length (fst (get_all_documents w2)) = 2 \<and>
      fst (get_all_documents w2) =
        (let e1 = \<lparr>d_doc_id = doc_id res1, d_file_name = fn1,
                   d_chunks_count = chunks_created res1,
                   d_upload_timestamp = dict_get ts1 []\<rparr>;
             e2 = \<lparr>d_doc_id = doc_id res2, d_file_name = fn2,
                   d_chunks_count = chunks_created res2,
                   d_upload_timestamp = dict_get ts2 []\<rparr>
         in if fn1 \<le> fn2 then [e1, e2] else [e2, e1])"
  proof (intro impI)
    assume h: "collection w0 = []"
      "process_and_store_document env fp1 fn1 ts1 w0 = (Inr res1, w1)"
      "process_and_store_document env fp2 fn2 ts2 w1 = (Inr res2, w2)"
      "doc_id res1 \<noteq> []" "doc_id res2 \<noteq> []" "doc_id res1 \<noteq> doc_id res2"
    note t = two_uploads [OF h]
    have n: "length (fst (get_all_documents w2)) = 2" unfolding t by (simp add: Let_def)
    from n t show "length (fst (get_all_documents w2)) = 2 \<and>
      fst (get_all_documents w2) =
        (let e1 = \<lparr>d_doc_id = doc_id res1, d_file_name = fn1,
                   d_chunks_count = chunks_created res1,
                   d_upload_timestamp = dict_get ts1 []\<rparr>;
             e2 = \<lparr>d_doc_id = doc_id res2, d_file_name = fn2,
                   d_chunks_count = chunks_created res2,
                   d_upload_timestamp = dict_get ts2 []\<rparr>
         in if fn1 \<le> fn2 then [e1, e2] else [e2, e1])"
      by (rule conjI)
  qed
  show ?thesis by (rule conjI [OF a conjI [OF b conjI [OF c conjI [OF d e]]]])
qed


lemma store_about:
  "process_and_store_document demo_services ''/tmp/upload.txt'' ''about.txt''
     (Some ''2024-05-02T09:30:00'') notes_world
   = (Inr \<lparr>doc_id = ''uuid-4'', chunks_created = 1\<rparr>, library_world)"
proof -
  have e: "extract_text demo_services ''/tmp/upload.txt'' ''about.txt'' = Inr [(''plain'', 1)]"
    by (simp add: extract_text_def extract_text_from_txt_def str_lower_def lower_char_def
        str_strip_def isspace_def demo_services_def)
  have four: "str_nat 4 = ''4''" "str_nat 5 = ''5''" "str_nat (Suc 4) = ''5''" by code_simp+
  show ?thesis
    unfolding store_stages e
    by (simp add: demo_services_def notes_world_def empty_batch_def get_embedding_def
        get_embeddings_client_def formatted_text_def record_call_def draw_uuid_def Let_def
        four library_world_def collection_add_def has_none_value_def)
qed

text \<open>
  The theorem at \<open>notes.pdf\<close> (three chunks) followed by \<open>about.txt\<close> (one chunk): the
  listing puts \<open>about.txt\<close> first.
\<close>

theorem document_catalog_witness:
  "collection empty_world = [] \<and>
   process_and_store_document demo_services ''/tmp/upload.pdf'' ''notes.pdf''
     (Some ''2024-05-01T10:00:00'') empty_world
   = (Inr \<lparr>doc_id = ''uuid-0'', chunks_created = 3\<rparr>, notes_world) \<and>
   process_and_store_document demo_services ''/tmp/upload.txt'' ''about.txt''
     (Some ''2024-05-02T09:30:00'') notes_world
   = (Inr \<lparr>doc_id = ''uuid-4'', chunks_created = 1\<rparr>, library_world) \<and>
   fst (get_all_documents library_world) =
     [\<lparr>d_doc_id = ''uuid-4'', d_file_name = ''about.txt'', d_chunks_count = 1,
       d_upload_timestamp = ''2024-05-02T09:30:00''\<rparr>,
      \<lparr>d_doc_id = ''uuid-0'', d_file_name = ''notes.pdf'', d_chunks_count = 3,
       d_upload_timestamp = ''2024-05-01T10:00:00''\<rparr>] \<and>
   length (filter (\<lambda>m. chunk_doc_id m = ''uuid-0'') (map r_metadata (collection library_world)))
     = 3 \<and>
   earliest (filter (\<lambda>m. chunk_doc_id m = ''uuid-0'') (map r_metadata (collection library_world)))
     = ''2024-05-01T10:00:00''"
proof -
  let ?r1 = "\<lparr>doc_id = ''uuid-0'', chunks_created = 3\<rparr>"
  let ?r2 = "\<lparr>doc_id = ''uuid-4'', chunks_created = 1\<rparr>"
  let ?e1 = "\<lparr>d_doc_id = ''uuid-0'', d_file_name = ''notes.pdf'', d_chunks_count = 3,
       d_upload_timestamp = ''2024-05-01T10:00:00''\<rparr>"
  let ?e2 = "\<lparr>d_doc_id = ''uuid-4'', d_file_name = ''about.txt'', d_chunks_count = 1,
       d_upload_timestamp = ''2024-05-02T09:30:00''\<rparr>"
  have c0: "collection empty_world = []" by (simp add: empty_world_def)
  note up1 = store_notes and up2 = store_about
  have ids: "doc_id ?r1 \<noteq> []" "doc_id ?r2 \<noteq> []" "doc_id ?r1 \<noteq> doc_id ?r2" by simp_all
  have ord: "\<not> ''notes.pdf'' \<le> ''about.txt''" by code_simp
  note t = document_catalog [of library_world empty_world demo_services "''/tmp/upload.pdf''"
      "''notes.pdf''" "Some ''2024-05-01T10:00:00''" ?r1 notes_world "''/tmp/upload.txt''"
      "''about.txt''" "Some ''2024-05-02T09:30:00''" ?r2 library_world]
  from t c0 up1 up2 ids have "fst (get_all_documents library_world) =
        (let e1 = \<lparr>d_doc_id = doc_id ?r1, d_file_name = ''notes.pdf'',
                   d_chunks_count = chunks_created ?r1,
                   d_upload_timestamp = dict_get (Some ''2024-05-01T10:00:00'') []\<rparr>;
             e2 = \<lparr>d_doc_id = doc_id ?r2, d_file_name = ''about.txt'',
                   d_chunks_count = chunks_created ?r2,
                   d_upload_timestamp = dict_get (Some ''2024-05-02T09:30:00'') []\<rparr>
         in if ''notes.pdf'' \<le> ''about.txt'' then [e1, e2] else [e2, e1])"
    by blast
  then have docs: "fst (get_all_documents library_world) = [?e2, ?e1]"
    using ord by (simp add: Let_def dict_get_def)
  then have mem: "?e1 \<in> set (fst (get_all_documents library_world))" by simp
  from t have "\<forall>e \<in> set (fst (get_all_documents library_world)).
      d_chunks_count e = length (filter (\<lambda>m. chunk_doc_id m = d_doc_id e)
                                   (map r_metadata (collection library_world))) \<and>
      d_upload_timestamp e = earliest (filter (\<lambda>m. chunk_doc_id m = d_doc_id e)
                                   (map r_metadata (collection library_world)))"
    by blast
  from this mem have
    "d_chunks_count ?e1 = length (filter (\<lambda>m. chunk_doc_id m = d_doc_id ?e1)
                                   (map r_metadata (collection library_world))) \<and>
     d_upload_timestamp ?e1 = earliest (filter (\<lambda>m. chunk_doc_id m = d_doc_id ?e1)
                                   (map r_metadata (collection library_world)))"
    by (rule bspec)
  then have cnt: "length (filter (\<lambda>m. chunk_doc_id m = ''uuid-0'')
                     (map r_metadata (collection library_world))) = 3"
    and ts: "earliest (filter (\<lambda>m. chunk_doc_id m = ''uuid-0'')
                     (map r_metadata (collection library_world))) = ''2024-05-01T10:00:00''"
    by simp_all
  from c0 up1 up2 docs cnt ts show ?thesis by blast
qed

end
